theory Spec2Isabelle
  imports Main "HOL-Library.Sublist"
begin

section \<open>JavaScript strings and the Node path helpers the scripts call\<close>

text \<open>
  The manifest generators are eight stand-alone Node scripts (Adobe, Amiga Music,
  BoomLibrary, FilmCow, H360s, Kenney, Other, XDSoundKit).  Each one walks
  \<^verbatim>\<open>audio/<Library>\<close>, builds one record per audio file and writes
  \<^verbatim>\<open>manifest.json\<close>.

  A JavaScript string is modelled as a \<^typ>\<open>string\<close> whose characters are the code units
  below 256 (Latin-1); every literal of the scripts lies in that range.  Paths are POSIX
  paths, and a directory entry name is a single path component.
\<close>

definition isUpperCode :: "nat \<Rightarrow> bool" where
  "isUpperCode n = ((65 \<le> n \<and> n \<le> 90) \<or> (192 \<le> n \<and> n \<le> 222 \<and> n \<noteq> 215))"

definition lowerChar :: "char \<Rightarrow> char" where
  "lowerChar c = (if isUpperCode (of_char c) then char_of (of_char c + (32::nat)) else c)"

text \<open>\<^verbatim>\<open>s.toLowerCase()\<close>: A-Z and the Latin-1 capitals (except the multiplication sign)
  move 32 code units up, everything else stays.\<close>

definition toLowerCase :: "string \<Rightarrow> string" where
  "toLowerCase s = map lowerChar s"

text \<open>The regular expression class \<^verbatim>\<open>\w\<close> (no unicode flag): \<^verbatim>\<open>[A-Za-z0-9_]\<close>.\<close>

definition isWordChar :: "char \<Rightarrow> bool" where
  "isWordChar c = (let n = (of_char c :: nat) in
     (65 \<le> n \<and> n \<le> 90) \<or> (97 \<le> n \<and> n \<le> 122) \<or> (48 \<le> n \<and> n \<le> 57) \<or> n = 95)"

text \<open>\<^verbatim>\<open>l.toUpperCase()\<close> for a one-character match \<^verbatim>\<open>l\<close> of \<^verbatim>\<open>\w\<close>: a-z move 32
  code units down; digits, capitals and the underscore stay.\<close>

definition upperWordChar :: "char \<Rightarrow> char" where
  "upperWordChar c = (let n = (of_char c :: nat) in
     if 97 \<le> n \<and> n \<le> 122 then char_of (n - 32) else c)"

text \<open>\<^verbatim>\<open>s.includes(p)\<close>: \<^verbatim>\<open>p\<close> occurs in \<^verbatim>\<open>s\<close> as a contiguous substring.\<close>

fun includesStr :: "string \<Rightarrow> string \<Rightarrow> bool" where
  "includesStr [] p = (p = [])"
| "includesStr (c # cs) p = (prefix p (c # cs) \<or> includesStr cs p)"

text \<open>\<^verbatim>\<open>s.replace(pat, rep)\<close> with a string pattern: only the first occurrence is
  replaced (the replacement strings of the scripts contain no \<^verbatim>\<open>$\<close>).\<close>

fun replaceFirst :: "string \<Rightarrow> string \<Rightarrow> string \<Rightarrow> string" where
  "replaceFirst pat rep [] = (if pat = [] then rep else [])"
| "replaceFirst pat rep (c # cs) =
     (if prefix pat (c # cs) then rep @ drop (length pat) (c # cs)
      else c # replaceFirst pat rep cs)"

text \<open>\<^verbatim>\<open>s.replace(/[_-]/g, ' ')\<close>, \<^verbatim>\<open>s.replace(/_/g, ' ')\<close> and
  \<^verbatim>\<open>s.replace(/-/g, ' ')\<close>: every character of the class becomes a space.\<close>

definition replaceAllBySpace :: "char list \<Rightarrow> string \<Rightarrow> string" where
  "replaceAllBySpace cls s = map (\<lambda>c. if c \<in> set cls then CHR '' '' else c) s"

text \<open>\<^verbatim>\<open>s.replace(/\b\w/g, l => l.toUpperCase())\<close>: a word character is matched exactly
  when there is a word boundary in front of it, that is at the start of the string or
  after a character that is not a word character.  The flag \<open>prevWord\<close> says whether the
  previous character was a word character.\<close>

fun upperAtBoundary :: "bool \<Rightarrow> string \<Rightarrow> string" where
  "upperAtBoundary prevWord [] = []"
| "upperAtBoundary prevWord (c # cs) =
     (if isWordChar c \<and> \<not> prevWord then upperWordChar c else c)
       # upperAtBoundary (isWordChar c) cs"

definition capitalizeWords :: "string \<Rightarrow> string" where
  "capitalizeWords s = upperAtBoundary False s"

text \<open>\<^verbatim>\<open>path.extname(file)\<close> on one path component: the text from the last dot on;
  empty when there is no dot, when the only dot is the first character, and for
  \<^verbatim>\<open>..\<close>.\<close>

fun lastDot :: "string \<Rightarrow> nat option" where
  "lastDot [] = None"
| "lastDot (c # cs) =
     (case lastDot cs of
        Some i \<Rightarrow> Some (Suc i)
      | None \<Rightarrow> if c = CHR ''.'' then Some 0 else None)"

definition extname :: "string \<Rightarrow> string" where
  "extname file =
     (case lastDot file of
        None \<Rightarrow> []
      | Some i \<Rightarrow> if i = 0 \<or> file = ''..'' then [] else drop i file)"

text \<open>\<^verbatim>\<open>path.basename(file, suffix)\<close> on one path component: the suffix is cut off when
  the component ends with it and is longer than it.\<close>

definition basename :: "string \<Rightarrow> string \<Rightarrow> string" where
  "basename file ext =
     (if ext \<noteq> [] \<and> length ext \<le> length file then
        (if ext = file then []
         else if ext = drop (length file - length ext) file
              then take (length file - length ext) file
              else file)
      else file)"

text \<open>\<^verbatim>\<open>path.join\<close> of components that are neither empty nor dots.\<close>

fun joinPath :: "string list \<Rightarrow> string" where
  "joinPath [] = ''.''"
| "joinPath [c] = c"
| "joinPath (c # d # cs) = c @ ''/'' @ joinPath (d # cs)"

section \<open>Tag rules\<close>

text \<open>
  Every script holds a long chain of
  \<^verbatim>\<open>if (X.includes('a') || X.includes('b')) tags.push('t1', 't2');\<close>
  statements.  A rule records what \<^verbatim>\<open>X\<close> is, the alternatives and the pushed tags; the
  chains are kept in source order.  \<open>InName\<close> tests the lowercased file stem, \<open>InCategory\<close>
  the lowercased category name, and \<open>SubcategoryIs\<close> is Kenney's
  \<^verbatim>\<open>subcategory.toLowerCase() === 'male'\<close>.
\<close>

datatype scope = InName | InCategory | SubcategoryIs

type_synonym rule = "scope \<times> string list \<times> string list"

fun fires :: "string \<Rightarrow> string \<Rightarrow> string \<Rightarrow> scope \<Rightarrow> string list \<Rightarrow> bool" where
  "fires lowerName lowerCat lowerSubcat InName pats = list_ex (includesStr lowerName) pats"
| "fires lowerName lowerCat lowerSubcat InCategory pats = list_ex (includesStr lowerCat) pats"
| "fires lowerName lowerCat lowerSubcat SubcategoryIs pats = list_ex (\<lambda>p. lowerSubcat = p) pats"

fun applyRules :: "string \<Rightarrow> string \<Rightarrow> string \<Rightarrow> rule list \<Rightarrow> string list" where
  "applyRules lowerName lowerCat lowerSubcat [] = []"
| "applyRules lowerName lowerCat lowerSubcat ((sc, pats, pushed) # rs) =
     (if fires lowerName lowerCat lowerSubcat sc pats then pushed else [])
       @ applyRules lowerName lowerCat lowerSubcat rs"

definition adobeRules :: "rule list" where
  "adobeRules = [
    (InName, [''alert'', ''alarm''], [''alert'', ''notification'', ''warning'']),
    (InName, [''beep''], [''beep'', ''digital'', ''ui'']),
    (InName, [''cartoon''], [''cartoon'', ''animated'', ''playful'']),
    (InName, [''transition''], [''transition'', ''effect'']),
    (InName, [''weapon''], [''weapon'', ''combat'']),
    (InName, [''explosion''], [''explosion'', ''impact'', ''combat'']),
    (InName, [''laser''], [''laser'', ''scifi'', ''weapon'']),
    (InName, [''digital''], [''digital'', ''electronic'']),
    (InName, [''multimedia''], [''multimedia'', ''digital'', ''ui'']),
    (InName, [''flash''], [''flash'', ''digital'', ''web'']),
    (InName, [''animation''], [''animation'', ''cartoon'']),
    (InName, [''toy''], [''toy'', ''playful'']),
    (InName, [''whistle''], [''whistle'', ''sound'']),
    (InName, [''horn''], [''horn'', ''instrument'']),
    (InName, [''balloon''], [''balloon'', ''toy'']),
    (InName, [''kiss''], [''kiss'', ''human'', ''cartoon'']),
    (InName, [''voice''], [''voice'', ''human'']),
    (InName, [''squeak''], [''squeak'', ''toy'']),
    (InName, [''drum''], [''drum'', ''percussion'', ''instrument'']),
    (InName, [''cymbal''], [''cymbal'', ''percussion'', ''instrument'']),
    (InName, [''bell''], [''bell'', ''notification'', ''chime'']),
    (InName, [''chime''], [''chime'', ''bell'', ''notification'']),
    (InName, [''blast''], [''blast'', ''impact'', ''explosion'']),
    (InName, [''crystal''], [''crystal'', ''magical'', ''effect'']),
    (InName, [''glow''], [''glow'', ''magical'', ''effect'']),
    (InName, [''data''], [''data'', ''digital'', ''computer'']),
    (InName, [''transmission''], [''transmission'', ''digital'', ''communication'']),
    (InName, [''computer''], [''computer'', ''digital'', ''technology'']),
    (InName, [''axe''], [''axe'', ''weapon'', ''melee'']),
    (InName, [''sword''], [''sword'', ''weapon'', ''melee'']),
    (InName, [''bullet''], [''bullet'', ''weapon'', ''ammo'']),
    (InName, [''cannon''], [''cannon'', ''weapon'', ''explosion'']),
    (InName, [''gun''], [''gun'', ''weapon'', ''firearm'']),
    (InName, [''rifle''], [''rifle'', ''weapon'', ''firearm'']),
    (InName, [''shotgun''], [''shotgun'', ''weapon'', ''firearm'']),
    (InName, [''machine gun''], [''machine gun'', ''weapon'', ''firearm'']),
    (InName, [''knife''], [''knife'', ''weapon'', ''melee'']),
    (InName, [''whip''], [''whip'', ''weapon'']),
    (InName, [''taser''], [''taser'', ''weapon'', ''electric'']),
    (InName, [''character''], [''character'', ''animator'']),
    (InName, [''ambience''], [''ambience'', ''background'', ''environment'']),
    (InName, [''footstep''], [''footstep'', ''foley'', ''walk'']),
    (InName, [''door''], [''door'', ''foley'', ''transition'']),
    (InName, [''fire''], [''fire'', ''effect'', ''nature'']),
    (InName, [''fireball''], [''fireball'', ''fire'', ''magic'']),
    (InName, [''horror''], [''horror'', ''scary'', ''dark'']),
    (InName, [''ghost''], [''ghost'', ''horror'', ''scary'']),
    (InName, [''scream''], [''scream'', ''horror'', ''human'']),
    (InName, [''glass''], [''glass'', ''foley'', ''break'']),
    (InName, [''paper''], [''paper'', ''foley'']),
    (InName, [''shower''], [''shower'', ''household'', ''water'']),
    (InName, [''crowd''], [''crowd'', ''human'', ''group'']),
    (InName, [''cheer''], [''cheer'', ''crowd'', ''celebration'']),
    (InName, [''water''], [''water'', ''liquid'', ''nature'']),
    (InName, [''splash''], [''splash'', ''water'', ''liquid'']),
    (InName, [''bubble''], [''bubble'', ''water'', ''liquid'']),
    (InName, [''scifi'', ''sci-fi''], [''scifi'', ''futuristic'', ''technology'']),
    (InName, [''alien''], [''alien'', ''scifi'', ''creature'']),
    (InName, [''spaceship'', ''space ship''], [''spaceship'', ''scifi'', ''vehicle'']),
    (InName, [''saber''], [''saber'', ''scifi'', ''weapon'']),
    (InName, [''sports''], [''sports'', ''game'']),
    (InName, [''baseball''], [''baseball'', ''sports'', ''game'']),
    (InName, [''basketball''], [''basketball'', ''sports'', ''game'']),
    (InName, [''football''], [''football'', ''sports'', ''game'']),
    (InName, [''arcade''], [''arcade'', ''game'', ''retro'']),
    (InName, [''keyboard''], [''keyboard'', ''computer'', ''typing'']),
    (InName, [''cell phone'', ''phone''], [''phone'', ''mobile'', ''communication'']),
    (InName, [''car''], [''car'', ''vehicle'', ''transportation'']),
    (InName, [''truck''], [''truck'', ''vehicle'', ''transportation'']),
    (InName, [''drive''], [''drive'', ''vehicle'', ''transportation'']),
    (InName, [''thunder''], [''thunder'', ''weather'', ''storm'']),
    (InName, [''lightning''], [''lightning'', ''weather'', ''storm'']),
    (InName, [''storm''], [''storm'', ''weather'', ''nature'']),
    (InName, [''wind''], [''wind'', ''weather'', ''nature'']),
    (InName, [''bleep''], [''bleep'', ''digital'', ''ui'']),
    (InName, [''cute''], [''cute'', ''playful'', ''friendly'']),
    (InName, [''woosh'', ''whoosh''], [''woosh'', ''movement'', ''effect'']),
    (InName, [''mouth''], [''mouth'', ''vocal'', ''human'']),
    (InName, [''readout''], [''readout'', ''digital'', ''computer'']),
    (InName, [''hooray''], [''hooray'', ''celebration'', ''human'']),
    (InName, [''motionsound''], [''motionsound'', ''sound effect''])]"

definition amigaRules :: "rule list" where
  "amigaRules = [
    (InName, [''game music'', ''game''], [''game'', ''soundtrack'']),
    (InName, [''mod''], [''mod'', ''module'', ''tracker'']),
    (InName, [''title'', ''theme''], [''title'', ''theme'', ''menu'']),
    (InName, [''intro''], [''intro'', ''opening'']),
    (InName, [''main''], [''main'', ''theme'']),
    (InName, [''boss''], [''boss'', ''battle'', ''combat'']),
    (InName, [''level'', ''stage''], [''level'', ''stage'', ''gameplay'']),
    (InName, [''game over''], [''game over'', ''fail'', ''gameplay'']),
    (InName, [''complete'', ''clear''], [''complete'', ''success'', ''victory'']),
    (InName, [''ending''], [''ending'', ''finale'', ''victory'']),
    (InName, [''intermission''], [''intermission'', ''break'']),
    (InName, [''loading''], [''loading'', ''wait'']),
    (InName, [''get ready''], [''get ready'', ''start'']),
    (InName, [''try again''], [''try again'', ''retry'', ''fail'']),
    (InName, [''mission''], [''mission'', ''objective'']),
    (InName, [''phase''], [''phase'', ''level'']),
    (InName, [''batman''], [''batman'', ''superhero'', ''action'']),
    (InName, [''battletoads''], [''battletoads'', ''action'', ''platformer'']),
    (InName, [''blood money''], [''blood money'', ''shooter'']),
    (InName, [''cannon fodder''], [''cannon fodder'', ''strategy'', ''war'']),
    (InName, [''flashback''], [''flashback'', ''platformer'', ''scifi'']),
    (InName, [''full contact''], [''full contact'', ''fighting'']),
    (InName, [''lotus''], [''lotus'', ''racing'', ''driving'']),
    (InName, [''pinball''], [''pinball'', ''arcade'']),
    (InName, [''r-type''], [''r-type'', ''shooter'', ''scifi'']),
    (InName, [''shadow of the beast''], [''shadow of the beast'', ''platformer'', ''dark'']),
    (InName, [''speedball''], [''speedball'', ''sports'', ''futuristic'']),
    (InName, [''dr awesome'', ''bj'' @ [CHR 0xF8] @ ''rn lynne''], [''dr awesome'', ''bj'' @ [CHR 0xF8] @ ''rn lynne'']),
    (InName, [''jester''], [''jester'', ''demo scene'']),
    (InName, [''pirat''], [''pirat'', ''demo scene'']),
    (InName, [''tdk'', ''mark knight''], [''tdk'', ''mark knight'', ''demo scene'']),
    (InName, [''course'', ''track''], [''track'', ''level'']),
    (InName, [''desert''], [''desert'', ''environment'']),
    (InName, [''forest''], [''forest'', ''nature'']),
    (InName, [''night''], [''night'', ''dark'']),
    (InName, [''snow''], [''snow'', ''winter'']),
    (InName, [''storm''], [''storm'', ''weather'']),
    (InName, [''fog''], [''fog'', ''atmosphere'']),
    (InName, [''motorway''], [''motorway'', ''road'', ''driving'']),
    (InName, [''cathedral''], [''cathedral'', ''gothic'', ''building'']),
    (InName, [''cave'', ''cavern''], [''cave'', ''underground'']),
    (InName, [''factory''], [''factory'', ''industrial'']),
    (InName, [''street''], [''street'', ''city'', ''urban'']),
    (InName, [''womb'', ''inside''], [''organic'', ''interior'']),
    (InName, [''dream'', ''island''], [''dream'', ''fantasy'']),
    (InName, [''arctic'', ''ice''], [''arctic'', ''ice'', ''cold'']),
    (InName, [''volcano'', ''inferno''], [''fire'', ''hot'', ''danger'']),
    (InName, [''surf''], [''surf'', ''water'', ''beach'']),
    (InName, [''revolution''], [''revolution'', ''action'']),
    (InName, [''turbo''], [''turbo'', ''fast'', ''speed'']),
    (InName, [''karnath'', ''lair''], [''lair'', ''boss'', ''danger'']),
    (InName, [''clinger'', ''winger''], [''action'', ''platformer'']),
    (InName, [''rat race''], [''rat race'', ''chase'']),
    (InName, [''wookie''], [''wookie'', ''hole'', ''cave'']),
    (InName, [''volkmire''], [''volkmire'', ''fire'', ''danger'']),
    (InName, [''intruder'', ''excluder''], [''action'', ''platformer'']),
    (InName, [''terra tubes''], [''terra'', ''tubes'', ''underground'']),
    (InName, [''beat box''], [''beat box'', ''hip hop'', ''urban'']),
    (InName, [''ignition''], [''ignition'', ''space'', ''rocket'']),
    (InName, [''nightmare''], [''nightmare'', ''dark'', ''horror'']),
    (InName, [''steel wheels''], [''steel wheels'', ''train'', ''industrial'']),
    (InName, [''belt''], [''belt'', ''item'']),
    (InName, [''chute''], [''chute'', ''slide'']),
    (InName, [''conrad''], [''conrad'', ''protagonist'', ''character'']),
    (InName, [''memories''], [''memories'', ''flashback'', ''story'']),
    (InName, [''delphine''], [''delphine'', ''logo'', ''studio'']),
    (InName, [''disintegration''], [''disintegration'', ''effect'', ''scifi'']),
    (InName, [''elevator''], [''elevator'', ''transport'', ''mechanical'']),
    (InName, [''fanfare''], [''fanfare'', ''triumph'', ''celebration'']),
    (InName, [''holocube''], [''holocube'', ''scifi'', ''item'']),
    (InName, [''teleport''], [''teleport'', ''scifi'', ''effect'']),
    (InName, [''taxi''], [''taxi'', ''vehicle'', ''transport'']),
    (InName, [''voyage''], [''voyage'', ''journey'', ''travel'']),
    (InName, [''waking''], [''waking'', ''awakening'', ''start'']),
    (InName, [''reunion''], [''reunion'', ''story'', ''emotional'']),
    (InName, [''acidic'', ''acid''], [''acid'', ''electronic'']),
    (InName, [''chip'', ''chipper''], [''chip'', ''chiptune'']),
    (InName, [''cyber''], [''cyber'', ''electronic'', ''scifi'']),
    (InName, [''molecule''], [''molecule'', ''science'']),
    (InName, [''wicked''], [''wicked'', ''intense'']),
    (InName, [''instinct''], [''instinct'', ''primal'']),
    (InName, [''melon''], [''melon'', ''playful'']),
    (InName, [''grind''], [''grind'', ''industrial'']),
    (InName, [''frequency''], [''frequency'', ''electronic'']),
    (InName, [''space''], [''space'', ''cosmic'', ''scifi'']),
    (InName, [''deliria'', ''delirium''], [''delirium'', ''trippy'']),
    (InName, [''hightop''], [''hightop'', ''energetic'']),
    (InName, [''back in town''], [''back in town'', ''return'']),
    (InName, [''escape''], [''escape'', ''action'', ''chase'']),
    (InName, [''suicide''], [''suicide'', ''dark'', ''intense'']),
    (InName, [''normal''], [''normal'', ''standard'']),
    (InName, [''distance''], [''distance'', ''separation'']),
    (InName, [''orgasmic''], [''orgasmic'', ''anthrox'', ''remix'']),
    (InName, [''chubby''], [''chubby'', ''playful''])]"

definition boomRules :: "rule list" where
  "boomRules = [
    (InCategory, [''cinematic hits''], [''hit'', ''impact'', ''cinematic'']),
    (InCategory, [''cinematic metal''], [''metal'', ''impact'', ''cinematic'']),
    (InCategory, [''cinematic trailers''], [''trailer'', ''cinematic'', ''epic'']),
    (InCategory, [''construction kit''], [''construction kit'', ''source'', ''raw'']),
    (InCategory, [''designed''], [''designed'', ''processed'', ''ready'']),
    (InCategory, [''impacts''], [''impact'', ''hit'', ''collision'']),
    (InName, [''boom''], [''boom'', ''low'', ''impact'']),
    (InName, [''hit''], [''hit'', ''impact'', ''strike'']),
    (InName, [''drum''], [''drum'', ''percussion'', ''rhythm'']),
    (InName, [''element''], [''element'', ''source'']),
    (InName, [''fire''], [''fire'', ''flame'', ''heat'']),
    (InName, [''metal''], [''metal'', ''steel'', ''iron'']),
    (InName, [''crash''], [''crash'', ''collision'', ''impact'']),
    (InName, [''chain''], [''chain'', ''metal'', ''rattle'']),
    (InName, [''smash''], [''smash'', ''destruction'', ''impact'']),
    (InName, [''damper''], [''damper'', ''metal'', ''resonance'']),
    (InName, [''gas''], [''gas'', ''industrial'', ''pressure'']),
    (InName, [''bottle''], [''bottle'', ''container'', ''metal'']),
    (InName, [''wood''], [''wood'', ''timber'', ''organic'']),
    (InName, [''table''], [''table'', ''furniture'', ''wood'']),
    (InName, [''distorted''], [''distorted'', ''processed'', ''gritty'']),
    (InName, [''massive''], [''massive'', ''large'', ''heavy'']),
    (InName, [''scifi'', ''sci-fi''], [''scifi'', ''futuristic'', ''technology'']),
    (InName, [''slam''], [''slam'', ''impact'', ''forceful'']),
    (InName, [''bell''], [''bell'', ''chime'', ''metal'']),
    (InName, [''car''], [''car'', ''vehicle'', ''automotive'']),
    (InName, [''hood''], [''hood'', ''car'', ''metal'']),
    (InName, [''container''], [''container'', ''metal'', ''industrial'']),
    (InName, [''door''], [''door'', ''metal'', ''opening'']),
    (InName, [''pole''], [''pole'', ''metal'', ''rod'']),
    (InName, [''iron''], [''iron'', ''metal'', ''heavy'']),
    (InName, [''hammer''], [''hammer'', ''tool'', ''impact'']),
    (InName, [''bicycle''], [''bicycle'', ''vehicle'', ''transport'']),
    (InName, [''piano''], [''piano'', ''instrument'', ''keys'']),
    (InName, [''sustained''], [''sustained'', ''ringing'', ''resonance'']),
    (InName, [''plate''], [''plate'', ''metal'', ''sheet'']),
    (InName, [''sheet''], [''sheet'', ''metal'', ''thin'']),
    (InName, [''slidedoor''], [''slide door'', ''mechanism'', ''metal'']),
    (InName, [''trash''], [''trash'', ''garbage'', ''metal'']),
    (InName, [''rattle''], [''rattle'', ''shake'', ''metal'']),
    (InName, [''hollow''], [''hollow'', ''empty'', ''resonant'']),
    (InName, [''crate''], [''crate'', ''box'', ''container'']),
    (InName, [''cavern''], [''cavern'', ''cave'', ''reverb'']),
    (InName, [''flame''], [''flame'', ''fire'', ''breath'']),
    (InName, [''meteorite''], [''meteorite'', ''space'', ''impact'']),
    (InName, [''wobbler''], [''wobbler'', ''unstable'', ''vibration'']),
    (InName, [''anvil''], [''anvil'', ''metal'', ''forge'']),
    (InName, [''angry''], [''angry'', ''aggressive'', ''intense'']),
    (InName, [''aquaphone''], [''aquaphone'', ''water'', ''instrument'']),
    (InName, [''harsh''], [''harsh'', ''gritty'', ''aggressive'']),
    (InName, [''glass''], [''glass'', ''fragile'', ''break'']),
    (InName, [''debris''], [''debris'', ''fragments'', ''scattered'']),
    (InName, [''orchestra''], [''orchestra'', ''symphonic'', ''cinematic'']),
    (InName, [''grancassa''], [''grancassa'', ''drum'', ''orchestral'']),
    (InName, [''synth''], [''synth'', ''electronic'', ''synthesizer'']),
    (InName, [''voice''], [''voice'', ''vocal'', ''human'']),
    (InName, [''choir''], [''choir'', ''vocal'', ''group'']),
    (InName, [''whisper''], [''whisper'', ''voice'', ''soft'']),
    (InName, [''rise''], [''rise'', ''building'', ''tension'']),
    (InName, [''tutti''], [''tutti'', ''orchestra'', ''full'']),
    (InName, [''chaos''], [''chaos'', ''disorder'', ''intense'']),
    (InName, [''stinger''], [''stinger'', ''hit'', ''short'']),
    (InName, [''fast''], [''fast'', ''quick'', ''rapid'']),
    (InName, [''whoosh''], [''whoosh'', ''sweep'', ''movement'']),
    (InName, [''torch''], [''torch'', ''fire'', ''flame'']),
    (InName, [''flange''], [''flange'', ''effect'', ''processed'']),
    (InName, [''speaker''], [''speaker'', ''audio'', ''electronic'']),
    (InName, [''creature''], [''creature'', ''monster'', ''beast'']),
    (InName, [''big''], [''big'', ''large'', ''massive'']),
    (InName, [''war''], [''war'', ''battle'', ''combat'']),
    (InName, [''stomp''], [''stomp'', ''foot'', ''impact'']),
    (InName, [''silverwind''], [''silverwind'', ''ethereal'', ''sweep'']),
    (InName, [''brass''], [''brass'', ''instrument'', ''metal'']),
    (InName, [''demon''], [''demon'', ''dark'', ''evil'']),
    (InName, [''firesworn''], [''firesworn'', ''fire'', ''magical'']),
    (InName, [''arnigator''], [''arnigator'', ''creature'', ''aggressive'']),
    (InName, [''soft''], [''soft'', ''gentle'', ''subtle'']),
    (InName, [''slightly''], [''slightly'', ''subtle'', ''light'']),
    (InName, [''impact''], [''impact'', ''hit'', ''collision'']),
    (InName, [''low''], [''low'', ''bass'', ''deep'']),
    (InName, [''mid''], [''mid'', ''medium'', ''middle'']),
    (InName, [''high''], [''high'', ''treble'', ''bright'']),
    (InName, [''loose''], [''loose'', ''relaxed'', ''free'']),
    (InName, [''long''], [''long'', ''extended'', ''sustained'']),
    (InName, [''large''], [''large'', ''big'', ''massive'']),
    (InName, [''medium''], [''medium'', ''mid'', ''average'']),
    (InName, [''small''], [''small'', ''little'', ''tiny''])]"

definition filmCowRules :: "rule list" where
  "filmCowRules = [
    (InCategory, [''designed''], [''designed'', ''sfx'']),
    (InCategory, [''recorded''], [''recorded'', ''foley'']),
    (InName, [''alien''], [''alien'', ''scifi'']),
    (InName, [''robot''], [''robot'', ''mechanical'']),
    (InName, [''laser''], [''laser'', ''weapon'']),
    (InName, [''space''], [''space'', ''scifi'']),
    (InName, [''sci fi'', ''sci-fi''], [''scifi'']),
    (InName, [''bug''], [''bug'', ''insect'']),
    (InName, [''goo''], [''goo'', ''liquid'', ''slime'']),
    (InName, [''ai''], [''ai'', ''computer'', ''digital'']),
    (InName, [''computer''], [''computer'', ''digital'']),
    (InName, [''machine''], [''machine'', ''mechanical'']),
    (InName, [''footstep''], [''footstep'', ''walk'']),
    (InName, [''door''], [''door'', ''transition'']),
    (InName, [''glass''], [''glass'']),
    (InName, [''metal''], [''metal'']),
    (InName, [''wood''], [''wood'']),
    (InName, [''water''], [''water'', ''liquid'']),
    (InName, [''splash''], [''splash'', ''water'']),
    (InName, [''paper''], [''paper'']),
    (InName, [''gun''], [''gun'', ''weapon'']),
    (InName, [''punch''], [''punch'', ''combat'']),
    (InName, [''hit''], [''hit'', ''impact'']),
    (InName, [''drop''], [''drop'']),
    (InName, [''bell''], [''bell'']),
    (InName, [''click''], [''click'', ''ui'']),
    (InName, [''horn''], [''horn'']),
    (InName, [''lightning''], [''lightning'', ''electric'']),
    (InName, [''thump''], [''thump'', ''impact'']),
    (InName, [''communication''], [''communication'', ''transmission'']),
    (InName, [''atmospheric''], [''atmospheric'', ''ambience'']),
    (InName, [''stinger''], [''stinger'', ''transition'']),
    (InName, [''ocean''], [''ocean'', ''water'', ''ambience'']),
    (InName, [''wave''], [''wave'', ''water'']),
    (InName, [''toilet''], [''toilet'', ''bathroom'']),
    (InName, [''chair''], [''chair'', ''furniture'']),
    (InName, [''book''], [''book'']),
    (InName, [''bottle''], [''bottle'']),
    (InName, [''knife''], [''knife'', ''weapon'']),
    (InName, [''umbrella''], [''umbrella'']),
    (InName, [''velcro''], [''velcro'']),
    (InName, [''teapot''], [''teapot'', ''kitchen'']),
    (InName, [''silverware''], [''silverware'', ''kitchen'']),
    (InName, [''rock''], [''rock'', ''stone'']),
    (InName, [''leaf'', ''leaves''], [''leaf'', ''nature'']),
    (InName, [''grass''], [''grass'', ''nature'']),
    (InName, [''bush''], [''bush'', ''nature'']),
    (InName, [''swamp''], [''swamp'', ''nature'', ''ambience'']),
    (InName, [''body''], [''body'', ''human'']),
    (InName, [''grunt''], [''grunt'', ''voice'', ''human'']),
    (InName, [''oof''], [''oof'', ''voice'', ''human'']),
    (InName, [''land''], [''land'', ''movement'']),
    (InName, [''fall''], [''fall'', ''movement'']),
    (InName, [''slap''], [''slap'', ''impact'']),
    (InName, [''sipping'', ''sip''], [''sip'', ''drink'']),
    (InName, [''button''], [''button'', ''ui'']),
    (InName, [''knob''], [''knob'', ''ui'']),
    (InName, [''drawer''], [''drawer'', ''furniture'']),
    (InName, [''crate''], [''crate'', ''container'']),
    (InName, [''cleaver''], [''cleaver'', ''kitchen'', ''weapon'']),
    (InName, [''fish''], [''fish'', ''animal'']),
    (InName, [''flag''], [''flag'', ''fabric'']),
    (InName, [''foam''], [''foam'']),
    (InName, [''fudge''], [''fudge'', ''food'']),
    (InName, [''gas''], [''gas'', ''liquid'']),
    (InName, [''harpoon''], [''harpoon'', ''weapon'']),
    (InName, [''beverage''], [''beverage'', ''drink'']),
    (InName, [''phone''], [''phone'', ''electronic'']),
    (InName, [''mouse''], [''mouse'', ''electronic'']),
    (InName, [''orange''], [''orange'', ''food'']),
    (InName, [''party''], [''party'', ''celebration'']),
    (InName, [''ping pong''], [''pingpong'', ''sport'']),
    (InName, [''plastic''], [''plastic'']),
    (InName, [''plate''], [''plate'', ''kitchen'']),
    (InName, [''rumbling''], [''rumbling'', ''ambience'']),
    (InName, [''sheet''], [''sheet'', ''fabric'']),
    (InName, [''spatula''], [''spatula'', ''kitchen'']),
    (InName, [''spray''], [''spray'', ''liquid'']),
    (InName, [''tube''], [''tube'']),
    (InName, [''future''], [''future'', ''scifi'']),
    (InName, [''presence''], [''presence'', ''ambience'']),
    (InName, [''talking''], [''talking'', ''voice'']),
    (InName, [''sick''], [''sick'', ''voice'']),
    (InName, [''freaking''], [''malfunction''])]"

definition h360sRules :: "rule list" where
  "h360sRules = [
    (InName, [''step'', ''foot''], [''footsteps'', ''walk'']),
    (InName, [''run''], [''run'', ''movement'']),
    (InName, [''jump''], [''jump'', ''movement'']),
    (InName, [''land''], [''land'', ''impact'']),
    (InName, [''concrete''], [''concrete'', ''surface'']),
    (InName, [''metal''], [''metal'', ''surface'']),
    (InName, [''wood''], [''wood'', ''surface'']),
    (InName, [''grass''], [''grass'', ''nature'']),
    (InName, [''dirt''], [''dirt'', ''ground'']),
    (InName, [''gravel''], [''gravel'', ''surface'']),
    (InName, [''water''], [''water'', ''liquid'']),
    (InName, [''mud''], [''mud'', ''ground'']),
    (InName, [''tile''], [''tile'', ''surface'']),
    (InName, [''glass''], [''glass'', ''surface'']),
    (InName, [''steel''], [''steel'', ''metal'']),
    (InName, [''panel''], [''panel'', ''surface'']),
    (InName, [''grate''], [''grate'', ''metal'']),
    (InName, [''drop''], [''drop'', ''liquid'']),
    (InName, [''drip''], [''drip'', ''liquid'']),
    (InName, [''splash''], [''splash'', ''water'']),
    (InName, [''cloth''], [''cloth'', ''fabric'']),
    (InName, [''woosh''], [''woosh'', ''fabric'', ''movement'']),
    (InName, [''smoke''], [''smoke'', ''effect'']),
    (InName, [''card''], [''card'', ''paper'']),
    (InName, [''flip''], [''flip'', ''paper'']),
    (InName, [''page''], [''page'', ''paper'']),
    (InName, [''weapon''], [''weapon'', ''combat'']),
    (InName, [''grab''], [''grab'', ''weapon'']),
    (InName, [''punch''], [''punch'', ''combat'', ''impact'']),
    (InName, [''hit''], [''hit'', ''impact'', ''combat'']),
    (InName, [''swing''], [''swing'', ''weapon'']),
    (InName, [''block''], [''block'', ''combat'']),
    (InName, [''ambience'', ''ambient''], [''ambience'', ''background'']),
    (InName, [''nature''], [''nature'', ''outdoor'']),
    (InName, [''city''], [''city'', ''urban'']),
    (InName, [''room''], [''room'', ''indoor'']),
    (InName, [''forest''], [''forest'', ''nature'']),
    (InName, [''wind''], [''wind'', ''weather'']),
    (InName, [''rain''], [''rain'', ''weather'', ''water'']),
    (InName, [''thunder''], [''thunder'', ''weather'']),
    (InName, [''fire''], [''fire'', ''effect'']),
    (InName, [''voice'', ''vocal''], [''voice'', ''human'']),
    (InName, [''speak''], [''speak'', ''voice'']),
    (InName, [''breath''], [''breath'', ''human'']),
    (InName, [''grunt''], [''grunt'', ''voice'', ''effort'']),
    (InName, [''gasp''], [''gasp'', ''voice'']),
    (InName, [''scream''], [''scream'', ''voice'']),
    (InName, [''laugh''], [''laugh'', ''voice'']),
    (InName, [''explosion''], [''explosion'', ''combat'', ''impact'']),
    (InName, [''gun'', ''shot''], [''gun'', ''weapon'', ''combat'']),
    (InName, [''magic''], [''magic'', ''effect'']),
    (InName, [''spell''], [''spell'', ''magic'']),
    (InName, [''power''], [''power'', ''effect'']),
    (InName, [''charge''], [''charge'', ''effect'']),
    (InName, [''laser''], [''laser'', ''scifi'', ''weapon'']),
    (InName, [''electric''], [''electric'', ''effect'']),
    (InName, [''door''], [''door'', ''transition'']),
    (InName, [''gate''], [''gate'', ''transition'']),
    (InName, [''button''], [''button'', ''ui'']),
    (InName, [''click''], [''click'', ''ui'']),
    (InName, [''switch''], [''switch'', ''mechanical'']),
    (InName, [''lever''], [''lever'', ''mechanical'']),
    (InName, [''engine''], [''engine'', ''machine'']),
    (InName, [''motor''], [''motor'', ''machine'']),
    (InName, [''fan''], [''fan'', ''machine'']),
    (InName, [''machine''], [''machine'', ''mechanical'']),
    (InName, [''alarm''], [''alarm'', ''warning'']),
    (InName, [''siren''], [''siren'', ''warning'']),
    (InName, [''bell''], [''bell'', ''signal'']),
    (InName, [''absolver''], [''absolver'', ''game'']),
    (InName, [''brawlhalla''], [''brawlhalla'', ''game'']),
    (InName, [''injustice''], [''injustice'', ''game'']),
    (InName, [''fatal''], [''fatalfake'', ''game'']),
    (InName, [''ui'', ''menu''], [''ui'', ''interface'']),
    (InName, [''notification''], [''notification'', ''ui'']),
    (InName, [''select''], [''select'', ''ui'']),
    (InName, [''confirm''], [''confirm'', ''ui'']),
    (InName, [''cancel''], [''cancel'', ''ui''])]"

definition kenneyRules :: "rule list" where
  "kenneyRules = [
    (InCategory, [''impact''], [''impact'', ''hit'']),
    (InCategory, [''interface''], [''ui'', ''interface'']),
    (InCategory, [''rpg''], [''rpg'', ''fantasy'']),
    (InCategory, [''sci-fi''], [''scifi'', ''futuristic'']),
    (InCategory, [''digital''], [''digital'', ''retro'']),
    (InCategory, [''ui''], [''ui'', ''interface'']),
    (InCategory, [''voiceover''], [''voiceover'', ''voice'']),
    (SubcategoryIs, [''male''], [''male'', ''voice'']),
    (SubcategoryIs, [''female''], [''female'', ''voice'']),
    (InName, [''footstep''], [''footstep'', ''walk'']),
    (InName, [''door''], [''door'', ''transition'']),
    (InName, [''laser''], [''laser'', ''weapon'']),
    (InName, [''engine''], [''engine'', ''machine'']),
    (InName, [''explosion''], [''explosion'']),
    (InName, [''click''], [''click'']),
    (InName, [''switch''], [''switch'']),
    (InName, [''metal''], [''metal'']),
    (InName, [''glass''], [''glass'']),
    (InName, [''wood''], [''wood'']),
    (InName, [''book''], [''book'']),
    (InName, [''cloth''], [''cloth'', ''fabric'']),
    (InName, [''knife''], [''knife'', ''weapon'']),
    (InName, [''coin''], [''coin'', ''money'']),
    (InName, [''carpet''], [''carpet'']),
    (InName, [''concrete''], [''concrete'']),
    (InName, [''grass''], [''grass'', ''nature'']),
    (InName, [''snow''], [''snow'', ''winter'']),
    (InName, [''punch''], [''punch'', ''combat'']),
    (InName, [''bell''], [''bell'']),
    (InName, [''plate''], [''plate'']),
    (InName, [''plank''], [''plank'', ''wood'']),
    (InName, [''tin''], [''tin'', ''metal'']),
    (InName, [''mining''], [''mining'', ''dig'']),
    (InName, [''soft''], [''soft'']),
    (InName, [''heavy''], [''heavy'']),
    (InName, [''light''], [''light'']),
    (InName, [''medium''], [''medium'']),
    (InName, [''computer''], [''computer'', ''digital'']),
    (InName, [''forcefield''], [''forcefield'']),
    (InName, [''slime''], [''slime'', ''liquid'']),
    (InName, [''thruster''], [''thruster'', ''fire'']),
    (InName, [''space''], [''space'']),
    (InName, [''retro''], [''retro'']),
    (InName, [''large''], [''large'']),
    (InName, [''small''], [''small'']),
    (InName, [''circular''], [''circular'']),
    (InName, [''low''], [''low'']),
    (InName, [''back''], [''navigation'']),
    (InName, [''close''], [''transition'']),
    (InName, [''open''], [''transition'']),
    (InName, [''confirmation''], [''confirmation'', ''success'']),
    (InName, [''error''], [''error'', ''notification'']),
    (InName, [''drop''], [''drop'']),
    (InName, [''glitch''], [''glitch'', ''digital'']),
    (InName, [''maximize''], [''window'']),
    (InName, [''minimize''], [''window'']),
    (InName, [''question''], [''question'', ''notification'']),
    (InName, [''scratch''], [''scratch'']),
    (InName, [''scroll''], [''scroll'']),
    (InName, [''select''], [''select'']),
    (InName, [''toggle''], [''toggle'']),
    (InName, [''tick''], [''tick'', ''clock'']),
    (InName, [''bong''], [''notification'']),
    (InName, [''pluck''], [''pluck'']),
    (InName, [''belt''], [''belt'', ''leather'']),
    (InName, [''handle''], [''handle'']),
    (InName, [''chop''], [''chop'', ''action'']),
    (InName, [''creak''], [''creak'']),
    (InName, [''draw''], [''draw'']),
    (InName, [''slice''], [''slice'']),
    (InName, [''latch''], [''latch'']),
    (InName, [''pot''], [''pot'']),
    (InName, [''powerup''], [''powerup'', ''game'']),
    (InName, [''zap''], [''zap'']),
    (InName, [''trash''], [''trash'']),
    (InName, [''war_''], [''war'', ''combat'']),
    (InName, [''game_over''], [''gameover'']),
    (InName, [''you_win''], [''win'', ''success'']),
    (InName, [''you_lose''], [''lose'', ''fail'']),
    (InName, [''mission''], [''mission'']),
    (InName, [''level''], [''level'']),
    (InName, [''round''], [''round'']),
    (InName, [''ready''], [''ready'']),
    (InName, [''set''], [''set'']),
    (InName, [''go''], [''go'']),
    (InName, [''correct''], [''correct'', ''success'']),
    (InName, [''wrong''], [''wrong'', ''fail'']),
    (InName, [''congratulations''], [''congratulations'', ''success'']),
    (InName, [''hurry''], [''hurry'', ''time'']),
    (InName, [''tie''], [''tie'']),
    (InName, [''highscore''], [''highscore'', ''score'']),
    (InName, [''objective''], [''objective'']),
    (InName, [''medic''], [''medic'']),
    (InName, [''sniper''], [''sniper'', ''weapon'']),
    (InName, [''reloading''], [''reloading'']),
    (InName, [''backup''], [''backup'']),
    (InName, [''cover''], [''cover'']),
    (InName, [''fire''], [''fire'']),
    (InName, [''target''], [''target''])]"

definition otherRules :: "rule list" where
  "otherRules = [
    (InName, [''bomb jack''], [''bomb jack'', ''arcade'', ''platformer'', ''mark cooksey'']),
    (InName, [''frankie goes to hollywood''], [''frankie goes to hollywood'', ''fred gray'', ''c64'', ''commodore'']),
    (InName, [''hyper sports''], [''hyper sports'', ''martin galway'', ''sports'', ''olympic'']),
    (InName, [''lazy jones''], [''lazy jones'', ''david whittaker'', ''c64'', ''commodore'']),
    (InName, [''super mario''], [''super mario'', ''koji kondo'', ''nintendo'', ''nes'']),
    (InName, [''yie ar kung fu''], [''yie ar kung fu'', ''martin galway'', ''fighting'', ''arcade'']),
    (InName, [''mark cooksey''], [''mark cooksey'', ''composer'']),
    (InName, [''fred gray''], [''fred gray'', ''composer'']),
    (InName, [''martin galway''], [''martin galway'', ''composer'']),
    (InName, [''david whittaker''], [''david whittaker'', ''composer'']),
    (InName, [''koji kondo''], [''koji kondo'', ''composer'']),
    (InName, [''theme'', ''title''], [''theme'', ''title'', ''menu'']),
    (InName, [''in-game'', ''ingame''], [''in-game'', ''gameplay'', ''background'']),
    (InName, [''loop''], [''loop'', ''repeating'']),
    (InName, [''sting'', ''stinger''], [''sting'', ''stinger'', ''short'', ''jingle'']),
    (InName, [''string''], [''string'', ''synth'', ''melody'']),
    (InName, [''complete'', ''complete sting''], [''complete'', ''success'', ''victory'']),
    (InName, [''game over''], [''game over'', ''fail'', ''end'']),
    (InName, [''level complete'', ''level''], [''level'', ''stage'', ''complete'']),
    (InName, [''song''], [''song'', ''track'', ''music'']),
    (InName, [''castle''], [''castle'', ''dungeon'', ''boss'']),
    (InName, [''overworld''], [''overworld'', ''main'', ''outdoor'']),
    (InName, [''underwater''], [''underwater'', ''swimming'', ''water'']),
    (InName, [''underworld''], [''underworld'', ''underground'', ''cave'']),
    (InName, [''princess'', ''peach''], [''princess'', ''peach'', ''ending'', ''victory'']),
    (InName, [''superstar''], [''superstar'', ''powerup'', ''star'']),
    (InName, [''time''], [''time'', ''warning'', ''urgent'']),
    (InName, [''lose a life''], [''lose a life'', ''death'', ''fail'']),
    (InName, [''full mix''], [''full mix'', ''complete'', ''arrangement'']),
    (InName, [''pulse channel''], [''pulse channel'', ''chiptune'', ''nes'', ''channel'']),
    (InName, [''triangle channel'', ''triangle wave''], [''triangle'', ''bass'', ''nes'', ''channel'']),
    (InName, [''noise channel''], [''noise'', ''percussion'', ''drums'', ''nes'']),
    (InName, [''kung fu''], [''kung fu'', ''fighting'', ''martial arts'']),
    (InName, [''level start''], [''level start'', ''begin'', ''intro'']),
    (InName, [''level complete''], [''level complete'', ''victory'', ''success'']),
    (InName, [''sports''], [''sports'', ''athletics'', ''competition'']),
    (InName, [''lazy''], [''lazy'', ''relaxed'', ''casual'']),
    (InName, [''flower power''], [''flower power'', ''theme'', ''psychedelic'']),
    (InName, [''sobre las olas''], [''sobre las olas'', ''classical'', ''waltz'']),
    (InName, [''magnetic fields''], [''magnetic fields'', ''influence'']),
    (InName, [''jean-michel jarre''], [''jean-michel jarre'', ''synth'', ''electronic'', ''influence''])]"

definition xdRules :: "rule list" where
  "xdRules = [
    (InCategory, [''dings'', ''dongs''], [''ding'', ''dong'', ''bell'', ''chime'', ''notification'']),
    (InCategory, [''swishes'', ''swooshes''], [''swish'', ''swoosh'', ''whoosh'', ''sweep'', ''movement'']),
    (InCategory, [''tics'', ''tacs''], [''tic'', ''tac'', ''tick'', ''clock'', ''rhythm'']),
    (InCategory, [''wums'', ''wuhs''], [''wum'', ''wuh'', ''warm'', ''bass'', ''soft'']),
    (InName, [''ding''], [''ding'', ''bell'', ''notification'']),
    (InName, [''double''], [''double'', ''two'', ''multiple'']),
    (InName, [''triple''], [''triple'', ''three'', ''multiple'']),
    (InName, [''two step''], [''two step'', ''staggered'', ''double'']),
    (InName, [''low power''], [''low power'', ''warning'', ''battery'', ''alert'']),
    (InName, [''pleasant''], [''pleasant'', ''friendly'', ''positive'', ''happy'']),
    (InName, [''falling''], [''falling'', ''descending'', ''down'']),
    (InName, [''rising''], [''rising'', ''ascending'', ''up'']),
    (InName, [''steps''], [''steps'', ''staggered'', ''sequence'']),
    (InName, [''stutter''], [''stutter'', ''repeating'', ''staccato'']),
    (InName, [''uhoh'', ''uh oh''], [''uh oh'', ''warning'', ''alert'', ''mistake'']),
    (InName, [''up down up''], [''up down up'', ''bounce'', ''playful'']),
    (InName, [''swipe''], [''swipe'', ''gesture'', ''touch'', ''mobile'']),
    (InName, [''back''], [''back'', ''navigation'', ''return'']),
    (InName, [''swoosh''], [''swoosh'', ''sweep'', ''movement'']),
    (InName, [''happy''], [''happy'', ''positive'', ''cheerful'', ''friendly'']),
    (InName, [''wish''], [''wish'', ''magical'', ''sparkle'']),
    (InName, [''wisp''], [''wisp'', ''soft'', ''gentle'', ''light'']),
    (InName, [''gone with the wind''], [''gone with the wind'', ''long'', ''sweep'', ''wind'']),
    (InName, [''tictac'', ''tic tac''], [''tic tac'', ''clock'', ''rhythm'', ''tick'']),
    (InName, [''dial''], [''dial'', ''phone'', ''rotate'', ''adjust'']),
    (InName, [''fast''], [''fast'', ''quick'', ''rapid'']),
    (InName, [''medium''], [''medium'', ''moderate'', ''mid'']),
    (InName, [''slow''], [''slow'', ''leisurely'', ''relaxed'']),
    (InName, [''drop''], [''drop'', ''fall'', ''release'']),
    (InName, [''select''], [''select'', ''choose'', ''pick'', ''ui'']),
    (InName, [''warm''], [''warm'', ''soft'', ''pleasant'', ''comfortable'']),
    (InName, [''power''], [''power'', ''energy'', ''strength'']),
    (InName, [''wobble''], [''wobble'', ''unstable'', ''shake'', ''vibration''])]"

section \<open>The file system a script reads\<close>

text \<open>
  A directory entry is a file or a directory; both carry the name the listing returns and
  the size \<^verbatim>\<open>fs.statSync\<close> reports, a directory also its listing, in the order
  \<^verbatim>\<open>fs.readdirSync\<close> returns it.  A path that may resolve to nothing is an optional
  entry.
\<close>

datatype fsnode = File string nat | Dir string nat "fsnode list"

fun nodeName :: "fsnode \<Rightarrow> string" where
  "nodeName (File n sz) = n"
| "nodeName (Dir n sz items) = n"

fun statSize :: "fsnode \<Rightarrow> nat" where
  "statSize (File n sz) = sz"
| "statSize (Dir n sz items) = sz"

fun isDirectory :: "fsnode \<Rightarrow> bool" where
  "isDirectory (File n sz) = False"
| "isDirectory (Dir n sz items) = True"

datatype error = ENOENT | ENOTDIR | EISDIR

definition existsSync :: "fsnode option \<Rightarrow> bool" where
  "existsSync target = (target \<noteq> None)"

fun readdirSync :: "fsnode option \<Rightarrow> error + fsnode list" where
  "readdirSync None = Inl ENOENT"
| "readdirSync (Some (File n sz)) = Inl ENOTDIR"
| "readdirSync (Some (Dir n sz items)) = Inr items"

text \<open>The entry a path one component below a listed directory resolves to.\<close>

definition child :: "fsnode list \<Rightarrow> string \<Rightarrow> fsnode option" where
  "child items n = find (\<lambda>x. nodeName x = n) items"

fun childOf :: "fsnode option \<Rightarrow> string \<Rightarrow> fsnode option" where
  "childOf (Some (Dir n sz items)) c = child items c"
| "childOf target c = None"

section \<open>Records and the state of a run\<close>

text \<open>The fields \<^verbatim>\<open>id\<close> and \<^verbatim>\<open>size\<close> are \<open>id'\<close> and \<open>size'\<close> here.\<close>

record audioRecord =
  id' :: nat
  path :: string
  name :: string
  category :: string
  format :: string
  size' :: nat
  duration :: nat
  rating :: nat
  tags :: "string list"
  description :: string
  library :: string
  dateAdded :: string

text \<open>The two globals of a script: \<^verbatim>\<open>const manifest = []\<close> and \<^verbatim>\<open>let id = 1\<close>.\<close>

record runState =
  manifest :: "audioRecord list"
  idCounter :: nat

definition initialState :: runState where
  "initialState = \<lparr>manifest = [], idCounter = 1\<rparr>"

text \<open>\<^verbatim>\<open>new Date().toISOString()\<close> is read once per record; \<open>now k\<close> is the text it
  returns while the record with id \<open>k\<close> is built.\<close>

type_synonym clock = "nat \<Rightarrow> string"

section \<open>What differs between the eight scripts\<close>

datatype generator =
  Adobe | AmigaMusic | BoomLibrary | FilmCow | H360s | Kenney | Other | XDSoundKit

text \<open>The folder below \<^verbatim>\<open>audio\<close>, which is also the \<^verbatim>\<open>library\<close> field.\<close>

fun libraryFolder :: "generator \<Rightarrow> string" where
  "libraryFolder Adobe = ''Adobe''"
| "libraryFolder AmigaMusic = ''Amiga Music''"
| "libraryFolder BoomLibrary = ''BoomLibrary''"
| "libraryFolder FilmCow = ''FilmCow''"
| "libraryFolder H360s = ''H360s''"
| "libraryFolder Kenney = ''Kenney''"
| "libraryFolder Other = ''Other''"
| "libraryFolder XDSoundKit = ''XDSoundKit''"

text \<open>The library's name inside the \<^verbatim>\<open>description\<close> sentence.\<close>

fun libraryLabel :: "generator \<Rightarrow> string" where
  "libraryLabel BoomLibrary = ''Boom Library''"
| "libraryLabel g = libraryFolder g"

text \<open>Six scripts start the tag list with \<^verbatim>\<open>tags.push(lowerCat)\<close> and
  \<^verbatim>\<open>if (subcategory) tags.push(lowerSubcat)\<close>; FilmCow and Kenney have neither line.\<close>

fun pushesCategory :: "generator \<Rightarrow> bool" where
  "pushesCategory FilmCow = False"
| "pushesCategory Kenney = False"
| "pushesCategory g = True"

text \<open>The fixed tags of the "Add library tag" line.\<close>

fun libraryTags :: "generator \<Rightarrow> string list" where
  "libraryTags AmigaMusic = [''amiga'', ''retro'', ''chiptune'', ''synth'']"
| "libraryTags BoomLibrary = [''boom library'', ''professional'', ''cinematic'']"
| "libraryTags Other = [''retro'', ''game music'', ''soundtrack'']"
| "libraryTags XDSoundKit = [''xd soundkit'', ''ui'', ''notification'', ''interface'']"
| "libraryTags g = []"

fun rulesOf :: "generator \<Rightarrow> rule list" where
  "rulesOf Adobe = adobeRules"
| "rulesOf AmigaMusic = amigaRules"
| "rulesOf BoomLibrary = boomRules"
| "rulesOf FilmCow = filmCowRules"
| "rulesOf H360s = h360sRules"
| "rulesOf Kenney = kenneyRules"
| "rulesOf Other = otherRules"
| "rulesOf XDSoundKit = xdRules"

text \<open>The category a first-level folder of the library stands for.\<close>

fun categoryOf :: "generator \<Rightarrow> string \<Rightarrow> string" where
  "categoryOf Adobe subdir =
     (let categoryName = capitalizeWords (replaceAllBySpace ''_'' subdir)
      in if includesStr categoryName ''Adobe Sound Effects''
         then replaceFirst ''Adobe Sound Effects '' [] categoryName
         else categoryName)"
| "categoryOf FilmCow subdir = capitalizeWords (replaceFirst ''FilmCow '' [] subdir)"
| "categoryOf Kenney subdir =
     (if includesStr (toLowerCase subdir) ''voiceover'' then ''Voices''
      else capitalizeWords (replaceAllBySpace ''-'' (replaceFirst ''kenney_'' [] subdir)))"
| "categoryOf g subdir = subdir"

text \<open>H360s scans a fixed list of category folders.\<close>

definition categories :: "string list" where
  "categories = [''Ambience'', ''Combat'', ''Foley'', ''Misc'', ''Voices'']"

text \<open>The subcategory argument of the recursive call for the directory \<open>itemName\<close>:
  \<^verbatim>\<open>item.name\<close> in five scripts, \<^verbatim>\<open>subcategory || item.name\<close> in H360s.  FilmCow's
  function has no such parameter, and Kenney's never recurses.\<close>

fun childSubcategory :: "generator \<Rightarrow> string \<Rightarrow> string \<Rightarrow> string" where
  "childSubcategory H360s subcategory itemName =
     (if subcategory \<noteq> [] then subcategory else itemName)"
| "childSubcategory FilmCow subcategory itemName = []"
| "childSubcategory Kenney subcategory itemName = subcategory"
| "childSubcategory g subcategory itemName = itemName"

section \<open>One file: name, tags, record\<close>

definition allowList :: "string list" where
  "allowList = [''ogg'', ''wav'', ''mp3'']"

text \<open>\<^verbatim>\<open>path.extname(file).toLowerCase().slice(1)\<close>\<close>

definition extOf :: "string \<Rightarrow> string" where
  "extOf file = drop 1 (toLowerCase (extname file))"

text \<open>\<^verbatim>\<open>baseName.replace(/[_-]/g, ' ').replace(/\b\w/g, l => l.toUpperCase())\<close>\<close>

definition nameOf :: "string \<Rightarrow> string" where
  "nameOf baseName = capitalizeWords (replaceAllBySpace ''_-'' baseName)"

text \<open>Kenney alone shows \<^verbatim>\<open>`${name} (${subcategory})`\<close> when it has a subcategory.\<close>

definition displayName :: "generator \<Rightarrow> string \<Rightarrow> string \<Rightarrow> string" where
  "displayName g nm subcategory =
     (if g = Kenney \<and> subcategory \<noteq> [] then nm @ '' ('' @ subcategory @ '')'' else nm)"

text \<open>The list \<^verbatim>\<open>tags\<close> just before the "Remove duplicates" line.\<close>

definition pushedTags :: "generator \<Rightarrow> string \<Rightarrow> string \<Rightarrow> string \<Rightarrow> string list" where
  "pushedTags g categoryName subcategory baseName =
     (let lowerName = toLowerCase baseName;
          lowerCat = toLowerCase categoryName;
          lowerSubcat = toLowerCase subcategory
      in (if pushesCategory g
          then lowerCat # (if subcategory \<noteq> [] then [lowerSubcat] else [])
          else [])
         @ libraryTags g
         @ applyRules lowerName lowerCat lowerSubcat (rulesOf g))"

text \<open>\<^verbatim>\<open>[...new Set(tags)]\<close>: the set is filled in list order, adding a value that is
  already a member changes nothing, and the spread reads the members in insertion
  order.\<close>

definition setAdd :: "string list \<Rightarrow> string \<Rightarrow> string list" where
  "setAdd members t = (if t \<in> set members then members else members @ [t])"

definition uniqueTags :: "string list \<Rightarrow> string list" where
  "uniqueTags ts = foldl setAdd [] ts"

text \<open>The object handed to \<^verbatim>\<open>manifest.push\<close>; \<open>dirPath\<close> is the scanned directory as
  components below the library folder.\<close>

definition buildRecord ::
  "generator \<Rightarrow> clock \<Rightarrow> nat \<Rightarrow> string list \<Rightarrow> string \<Rightarrow> string \<Rightarrow> string \<Rightarrow> nat \<Rightarrow> audioRecord" where
  "buildRecord g now k dirPath categoryName subcategory file sz =
     (let relativePath = dirPath @ [file];
          filePath = joinPath ([''audio'', libraryFolder g] @ relativePath);
          baseName = basename file (extname file);
          shown = displayName g (nameOf baseName) subcategory
      in \<lparr>id' = k,
          path = filePath,
          name = shown,
          category = categoryName,
          format = extOf file,
          size' = sz,
          duration = 0,
          rating = 0,
          tags = uniqueTags (pushedTags g categoryName subcategory baseName),
          description = shown @ '' from '' @ libraryLabel g @ '' '' @ categoryName @ '' collection.'',
          library = libraryFolder g,
          dateAdded = now k\<rparr>)"

text \<open>The part of the \<^verbatim>\<open>forEach\<close> body that handles a file name: skip it unless the
  extension is allow-listed, else push the record and bump \<^verbatim>\<open>id\<close>.\<close>

definition processFile ::
  "generator \<Rightarrow> clock \<Rightarrow> string list \<Rightarrow> string \<Rightarrow> string \<Rightarrow> string \<Rightarrow> nat \<Rightarrow> runState \<Rightarrow> runState" where
  "processFile g now dirPath categoryName subcategory file sz st =
     (if extOf file \<notin> set allowList then st
      else \<lparr>manifest = manifest st
                @ [buildRecord g now (idCounter st) dirPath categoryName subcategory file sz],
            idCounter = idCounter st + 1\<rparr>)"

section \<open>The directory walk\<close>

text \<open>
  \<open>walkItems\<close> is the \<^verbatim>\<open>forEach\<close> over a listing.  For a directory entry seven scripts
  call \<^verbatim>\<open>processAudioDirectory\<close> again; its \<^verbatim>\<open>existsSync\<close> guard holds for an entry
  that was just listed and \<^verbatim>\<open>readdirSync\<close> returns that entry's listing, so the model
  recurses into the listing.  Kenney lists plain names and treats every entry as a file
  name.
\<close>

fun walkItems ::
  "generator \<Rightarrow> clock \<Rightarrow> string list \<Rightarrow> string \<Rightarrow> string \<Rightarrow> fsnode list \<Rightarrow> runState \<Rightarrow> runState" where
  "walkItems g now dirPath categoryName subcategory [] st = st"
| "walkItems g now dirPath categoryName subcategory (File n sz # items) st =
     walkItems g now dirPath categoryName subcategory items
       (processFile g now dirPath categoryName subcategory n sz st)"
| "walkItems g now dirPath categoryName subcategory (Dir n sz sub # items) st =
     walkItems g now dirPath categoryName subcategory items
       (if g = Kenney then processFile g now dirPath categoryName subcategory n sz st
        else walkItems g now (dirPath @ [n]) categoryName (childSubcategory g subcategory n) sub st)"

text \<open>\<^verbatim>\<open>processAudioDirectory(dirPath, categoryName, subcategory)\<close> as the top level calls
  it: return at once when the path is missing, fail as \<^verbatim>\<open>readdirSync\<close> fails, else
  walk the listing.\<close>

definition processAudioDirectory ::
  "generator \<Rightarrow> clock \<Rightarrow> string list \<Rightarrow> string \<Rightarrow> string \<Rightarrow> fsnode option \<Rightarrow> runState
     \<Rightarrow> error + runState" where
  "processAudioDirectory g now dirPath categoryName subcategory target st =
     (if \<not> existsSync target then Inr st
      else case readdirSync target of
             Inl e \<Rightarrow> Inl e
           | Inr items \<Rightarrow> Inr (walkItems g now dirPath categoryName subcategory items st))"

text \<open>A \<^verbatim>\<open>forEach\<close> whose body may throw: the first error ends the run.\<close>

fun forEach :: "('a \<Rightarrow> 's \<Rightarrow> error + 's) \<Rightarrow> 'a list \<Rightarrow> 's \<Rightarrow> error + 's" where
  "forEach body [] st = Inr st"
| "forEach body (x # xs) st =
     (case body x st of Inl e \<Rightarrow> Inl e | Inr st' \<Rightarrow> forEach body xs st')"

text \<open>Kenney's body for one pack folder: the \<^verbatim>\<open>Audio\<close>, \<^verbatim>\<open>Male\<close> and \<^verbatim>\<open>Female\<close>
  folders, each only if it exists.\<close>

definition kenneyFolder ::
  "clock \<Rightarrow> string \<Rightarrow> string \<Rightarrow> fsnode option \<Rightarrow> string \<Rightarrow> string \<Rightarrow> runState \<Rightarrow> error + runState" where
  "kenneyFolder now subdir categoryName packDir folder subcategory st =
     (let target = childOf packDir folder
      in if existsSync target
         then processAudioDirectory Kenney now [subdir, folder] categoryName subcategory target st
         else Inr st)"

definition kenneySubdir :: "clock \<Rightarrow> fsnode \<Rightarrow> runState \<Rightarrow> error + runState" where
  "kenneySubdir now d st =
     (let subdir = nodeName d; categoryName = categoryOf Kenney subdir
      in case kenneyFolder now subdir categoryName (Some d) ''Audio'' [] st of
           Inl e \<Rightarrow> Inl e
         | Inr st1 \<Rightarrow>
             (case kenneyFolder now subdir categoryName (Some d) ''Male'' ''Male'' st1 of
                Inl e \<Rightarrow> Inl e
              | Inr st2 \<Rightarrow> kenneyFolder now subdir categoryName (Some d) ''Female'' ''Female'' st2))"

text \<open>The body of \<^verbatim>\<open>subdirs.forEach\<close> of the scripts that list the library folder.\<close>

definition processSubdir :: "generator \<Rightarrow> clock \<Rightarrow> fsnode \<Rightarrow> runState \<Rightarrow> error + runState" where
  "processSubdir g now d st =
     (if g = Kenney then kenneySubdir now d st
      else processAudioDirectory g now [nodeName d] (categoryOf g (nodeName d)) [] (Some d) st)"

text \<open>The body of H360s's \<^verbatim>\<open>categories.forEach\<close>.\<close>

definition processCategory :: "clock \<Rightarrow> fsnode option \<Rightarrow> string \<Rightarrow> runState \<Rightarrow> error + runState" where
  "processCategory now base cat st =
     (let categoryPath = childOf base cat
      in if existsSync categoryPath
         then processAudioDirectory H360s now [cat] cat [] categoryPath st
         else Inr st)"

text \<open>The scan of a whole library: \<open>base\<close> is what \<^verbatim>\<open>audio/<Library>\<close> resolves to.
  Seven scripts list it (\<^verbatim>\<open>fs.readdirSync(base, { withFileTypes: true })\<close>, outside any
  guard) and keep the directories; H360s looks its five categories up.\<close>

definition scan :: "generator \<Rightarrow> clock \<Rightarrow> fsnode option \<Rightarrow> error + runState" where
  "scan g now base =
     (if g = H360s then forEach (processCategory now base) categories initialState
      else case readdirSync base of
             Inl e \<Rightarrow> Inl e
           | Inr entries \<Rightarrow> forEach (processSubdir g now) (filter isDirectory entries) initialState)"


section \<open>Writing the manifest\<close>

text \<open>
  \<^verbatim>\<open>JSON.stringify(manifest, null, 2)\<close> for an array of records: two spaces per level, an
  empty array as \<^verbatim>\<open>[]\<close>, the keys in the order of the object literal.  The numbers of a
  manifest (ids, sizes, the two zeros) are small non-negative integers, which print in
  decimal.
\<close>

definition digitChar :: "nat \<Rightarrow> char" where
  "digitChar d = char_of (48 + d)"

fun showNat :: "nat \<Rightarrow> string" where
  "showNat n = (if n < 10 then [digitChar n] else showNat (n div 10) @ [digitChar (n mod 10)])"

declare showNat.simps [simp del]

definition hexChar :: "nat \<Rightarrow> char" where
  "hexChar d = (if d < 10 then char_of (48 + d) else char_of (87 + d))"

text \<open>The escapes of a JSON string: quote, backslash, the five short control escapes and
  \<^verbatim>\<open>\u00XX\<close> for the other control characters.\<close>

definition escapeChar :: "char \<Rightarrow> string" where
  "escapeChar c = (let n = (of_char c :: nat) in
     if n = 34 then [CHR 0x5C, CHR 0x22]
     else if n = 92 then [CHR 0x5C, CHR 0x5C]
     else if n = 8 then [CHR 0x5C, CHR ''b'']
     else if n = 9 then [CHR 0x5C, CHR ''t'']
     else if n = 10 then [CHR 0x5C, CHR ''n'']
     else if n = 12 then [CHR 0x5C, CHR ''f'']
     else if n = 13 then [CHR 0x5C, CHR ''r'']
     else if n < 32 then [CHR 0x5C, CHR ''u'', CHR ''0'', CHR ''0'', hexChar (n div 16), hexChar (n mod 16)]
     else [c])"

definition quoteJson :: "string \<Rightarrow> string" where
  "quoteJson s = [CHR 0x22] @ concat (map escapeChar s) @ [CHR 0x22]"

definition indent :: "nat \<Rightarrow> string" where
  "indent n = replicate n (CHR '' '')"

fun joinLines :: "string list \<Rightarrow> string" where
  "joinLines [] = []"
| "joinLines [x] = x"
| "joinLines (x # y # ys) = x @ [CHR '','', CHR 0x0A] @ joinLines (y # ys)"

text \<open>An array or object whose closing bracket sits at indentation \<open>ind\<close>; \<open>members\<close> are
  the already serialised members.\<close>

definition bracketed :: "string \<Rightarrow> string \<Rightarrow> nat \<Rightarrow> string list \<Rightarrow> string" where
  "bracketed opening closing ind members =
     (if members = [] then opening @ closing
      else opening @ [CHR 0x0A] @ joinLines (map (\<lambda>m. indent (ind + 2) @ m) members)
           @ [CHR 0x0A] @ indent ind @ closing)"

definition member :: "string \<Rightarrow> string \<Rightarrow> string" where
  "member key v = quoteJson key @ '': '' @ v"

definition recordJson :: "nat \<Rightarrow> audioRecord \<Rightarrow> string" where
  "recordJson ind r = bracketed ''{'' ''}'' ind
     [member ''id'' (showNat (id' r)),
      member ''path'' (quoteJson (path r)),
      member ''name'' (quoteJson (name r)),
      member ''category'' (quoteJson (category r)),
      member ''format'' (quoteJson (format r)),
      member ''size'' (showNat (size' r)),
      member ''duration'' (showNat (duration r)),
      member ''rating'' (showNat (rating r)),
      member ''tags'' (bracketed ''['' '']'' (ind + 2) (map quoteJson (tags r))),
      member ''description'' (quoteJson (description r)),
      member ''library'' (quoteJson (library r)),
      member ''dateAdded'' (quoteJson (dateAdded r))]"

definition stringify :: "audioRecord list \<Rightarrow> string" where
  "stringify records = bracketed ''['' '']'' 0 (map (recordJson 2) records)"

text \<open>\<^verbatim>\<open>fs.writeFileSync(path.join(base, 'manifest.json'), text)\<close>: the library folder
  must be an existing directory and \<^verbatim>\<open>manifest.json\<close> must not be a directory; the
  result is the new content of the file.\<close>

fun writeFileSync :: "fsnode option \<Rightarrow> string \<Rightarrow> error + string" where
  "writeFileSync None content = Inl ENOENT"
| "writeFileSync (Some (File n sz)) content = Inl ENOTDIR"
| "writeFileSync (Some (Dir n sz items)) content =
     (case child items ''manifest.json'' of
        Some (Dir m msz sub) \<Rightarrow> Inl EISDIR
      | other \<Rightarrow> Inr content)"

text \<open>A whole run of a script: scan, then write.\<close>

definition generate :: "generator \<Rightarrow> clock \<Rightarrow> fsnode option \<Rightarrow> error + string" where
  "generate g now base =
     (case scan g now base of
        Inl e \<Rightarrow> Inl e
      | Inr st \<Rightarrow> writeFileSync base (stringify (manifest st)))"


section \<open>Notions used to state the properties\<close>

text \<open>Deduplication in the words of the specification: the first occurrence of every
  string stays where it is, every later occurrence is dropped.\<close>

fun keepFirst :: "'a list \<Rightarrow> 'a list" where
  "keepFirst [] = []"
| "keepFirst (x # xs) = x # keepFirst (filter (\<lambda>y. y \<noteq> x) xs)"

text \<open>Name derivation in the words of the specification: underscores and hyphens become
  spaces, then the first letter of every whitespace-delimited word is uppercased (ASCII
  case folding) and the rest of the word is left as it is.  \<open>wordStart\<close> says whether the
  next character starts a word.\<close>

definition isWhitespace :: "char \<Rightarrow> bool" where
  "isWhitespace c = (c \<in> set [CHR '' '', CHR 0x09, CHR 0x0A, CHR 0x0B, CHR 0x0C, CHR 0x0D])"

definition specUpper :: "char \<Rightarrow> char" where
  "specUpper c = (let n = (of_char c :: nat) in
     if 97 \<le> n \<and> n \<le> 122 then char_of (n - 32) else c)"

fun specTitle :: "bool \<Rightarrow> string \<Rightarrow> string" where
  "specTitle wordStart [] = []"
| "specTitle wordStart (c # cs) =
     (if isWhitespace c then c # specTitle True cs
      else (if wordStart then specUpper c else c) # specTitle False cs)"

definition specName :: "string \<Rightarrow> string" where
  "specName stem =
     specTitle True (map (\<lambda>c. if c = CHR ''_'' \<or> c = CHR ''-'' then CHR '' '' else c) stem)"

text \<open>A stem made of ASCII letters, digits, underscores, hyphens and whitespace only.\<close>

definition plainStem :: "string \<Rightarrow> bool" where
  "plainStem stem = list_all (\<lambda>c. isWordChar c \<or> c = CHR ''-'' \<or> isWhitespace c) stem"

text \<open>Every file at any depth of a listing, in listing order, with the directory it lies
  in (as components, starting from \<open>dirPath\<close>) and its size.\<close>

fun filesBelow :: "string list \<Rightarrow> fsnode list \<Rightarrow> (string list \<times> string \<times> nat) list" where
  "filesBelow dirPath [] = []"
| "filesBelow dirPath (File n sz # items) = (dirPath, n, sz) # filesBelow dirPath items"
| "filesBelow dirPath (Dir n sz sub # items) =
     filesBelow (dirPath @ [n]) sub @ filesBelow dirPath items"

text \<open>The subcategory of a file that lies \<open>dirs\<close> below its category folder, under the two
  propagation rules: the first-level directory, or the immediate parent directory; a
  file directly in the category folder has none.\<close>

fun firstLevel :: "string list \<Rightarrow> string" where
  "firstLevel [] = []"
| "firstLevel (d # ds) = d"

definition immediateParent :: "string list \<Rightarrow> string" where
  "immediateParent dirs = (if dirs = [] then [] else last dirs)"

text \<open>Handing one file of \<open>filesBelow [] items\<close> to the file handler: \<open>v\<close> holds the
  directories between \<open>dirPath\<close> and the file, the file name and the size; \<open>subOf\<close> gives
  the subcategory for those directories.\<close>

definition visit ::
  "generator \<Rightarrow> clock \<Rightarrow> string list \<Rightarrow> string \<Rightarrow> (string list \<Rightarrow> string) \<Rightarrow> runState
     \<Rightarrow> string list \<times> string \<times> nat \<Rightarrow> runState" where
  "visit g now dirPath categoryName subOf st v =
     processFile g now (dirPath @ fst v) categoryName (subOf (fst v)) (fst (snd v)) (snd (snd v)) st"

definition boomStyle :: "generator \<Rightarrow> bool" where
  "boomStyle g = (g \<in> set [Adobe, AmigaMusic, BoomLibrary, Other, XDSoundKit])"

text \<open>The subcategories a script can hand to the file handler: Kenney's top level passes
  nothing, \<^verbatim>\<open>'Male'\<close> or \<^verbatim>\<open>'Female'\<close> and its walk never changes them; FilmCow's function
  has no subcategory parameter; the other six pass directory names.\<close>

fun subcategoryPassed :: "generator \<Rightarrow> string \<Rightarrow> bool" where
  "subcategoryPassed Kenney s = (s = [] \<or> s = ''Male'' \<or> s = ''Female'')"
| "subcategoryPassed FilmCow s = (s = [])"
| "subcategoryPassed g s = True"

text \<open>No directory of the listing, at any depth, has the empty name.\<close>

fun dirsNamed :: "fsnode list \<Rightarrow> bool" where
  "dirsNamed [] = True"
| "dirsNamed (File n sz # items) = dirsNamed items"
| "dirsNamed (Dir n sz sub # items) = (n \<noteq> [] \<and> dirsNamed sub \<and> dirsNamed items)"

text \<open>The folders a script scans: the five categories that exist for H360s, every
  directory of the library folder for the others.\<close>

definition scannedFolders :: "generator \<Rightarrow> fsnode option \<Rightarrow> fsnode list" where
  "scannedFolders g base =
     (if g = H360s
      then concat (map (\<lambda>c. case childOf base c of None \<Rightarrow> [] | Some x \<Rightarrow> [x]) categories)
      else case readdirSync base of Inl e \<Rightarrow> [] | Inr entries \<Rightarrow> filter isDirectory entries)"

text \<open>A directory tree without the files whose extension is not allow-listed.\<close>

fun prune :: "fsnode list \<Rightarrow> fsnode list" where
  "prune [] = []"
| "prune (File n sz # items) =
     (if extOf n \<in> set allowList then File n sz # prune items else prune items)"
| "prune (Dir n sz sub # items) = Dir n sz (prune sub) # prune items"

fun pruneBase :: "fsnode option \<Rightarrow> fsnode option" where
  "pruneBase (Some (Dir n sz items)) = Some (Dir n sz (prune items))"
| "pruneBase target = target"

text \<open>The content of a record: everything but \<^verbatim>\<open>id\<close> and \<^verbatim>\<open>dateAdded\<close>.\<close>

definition content ::
  "audioRecord \<Rightarrow> string \<times> string \<times> string \<times> string \<times> nat \<times> nat \<times> nat \<times> string list \<times> string \<times> string" where
  "content r = (path r, name r, category r, format r, size' r, duration r, rating r,
                tags r, description r, library r)"

text \<open>What a run yields, reduced to the content of its records.\<close>

definition recordContents ::
  "error + runState \<Rightarrow>
   error + (string \<times> string \<times> string \<times> string \<times> nat \<times> nat \<times> nat \<times> string list \<times> string \<times> string) list" where
  "recordContents result = map_sum (\<lambda>e. e) (\<lambda>st. map content (manifest st)) result"

text \<open>A record and a state with the timestamps blanked, and the clock that returns the
  blank.\<close>

definition undated :: "audioRecord \<Rightarrow> audioRecord" where
  "undated r = r\<lparr>dateAdded := []\<rparr>"

definition undatedState :: "runState \<Rightarrow> runState" where
  "undatedState st = st\<lparr>manifest := map undated (manifest st)\<rparr>"

definition noClock :: clock where
  "noClock k = []"

section \<open>Example trees\<close>

definition epoch :: clock where
  "epoch k = ''1970-01-01T00:00:00.000Z''"

definition scenarioA :: "fsnode option" where
  "scenarioA = Some (Dir ''Other'' 0
     [Dir ''RetroGames'' 0 [File ''bomb_jack_theme.ogg'' 34]])"

definition impactPack :: "fsnode list" where
  "impactPack =
     [Dir ''Audio'' 0
        [File ''footstep_00.ogg'' 20,
         Dir ''extra'' 0 [File ''glass_01.ogg'' 30]]]"

definition kenneyTree :: "fsnode option" where
  "kenneyTree = Some (Dir ''Kenney'' 0
     [Dir ''kenney_impact-sounds'' 0 impactPack,
      Dir ''kenney_voiceover-pack'' 0
        [Dir ''Male'' 0 [File ''war_go.ogg'' 40]]])"

definition foleyItems :: "fsnode list" where
  "foleyItems =
     [File ''step.ogg'' 10,
      File ''notes.txt'' 5,
      Dir ''Boots'' 0 [Dir ''Snow'' 0 [File ''run_01.WAV'' 20]]]"

definition h360sTree :: "fsnode option" where
  "h360sTree = Some (Dir ''H360s'' 0 [Dir ''Foley'' 0 foleyItems])"

definition boomTree :: "fsnode option" where
  "boomTree = Some (Dir ''BoomLibrary'' 0 [Dir ''Foley'' 0 foleyItems])"

text \<open>What the BoomLibrary and H360s scripts produce for these trees.\<close>

definition boomResult :: runState where
  "boomResult = \<lparr>manifest =
     [\<lparr>id' = 1, path = ''audio/BoomLibrary/Foley/step.ogg'', name = ''Step'',
       category = ''Foley'', format = ''ogg'', size' = 10, duration = 0, rating = 0,
       tags = [''foley'', ''boom library'', ''professional'', ''cinematic''],
       description = ''Step from Boom Library Foley collection.'',
       library = ''BoomLibrary'', dateAdded = ''1970-01-01T00:00:00.000Z''\<rparr>,
      \<lparr>id' = 2, path = ''audio/BoomLibrary/Foley/Boots/Snow/run_01.WAV'', name = ''Run 01'',
       category = ''Foley'', format = ''wav'', size' = 20, duration = 0, rating = 0,
       tags = [''foley'', ''snow'', ''boom library'', ''professional'', ''cinematic''],
       description = ''Run 01 from Boom Library Foley collection.'',
       library = ''BoomLibrary'', dateAdded = ''1970-01-01T00:00:00.000Z''\<rparr>],
     idCounter = 3\<rparr>"

definition h360sResult :: runState where
  "h360sResult = \<lparr>manifest =
     [\<lparr>id' = 1, path = ''audio/H360s/Foley/step.ogg'', name = ''Step'',
       category = ''Foley'', format = ''ogg'', size' = 10, duration = 0, rating = 0,
       tags = [''foley'', ''footsteps'', ''walk''],
       description = ''Step from H360s Foley collection.'',
       library = ''H360s'', dateAdded = ''1970-01-01T00:00:00.000Z''\<rparr>,
      \<lparr>id' = 2, path = ''audio/H360s/Foley/Boots/Snow/run_01.WAV'', name = ''Run 01'',
       category = ''Foley'', format = ''wav'', size' = 20, duration = 0, rating = 0,
       tags = [''foley'', ''boots'', ''run'', ''movement''],
       description = ''Run 01 from H360s Foley collection.'',
       library = ''H360s'', dateAdded = ''1970-01-01T00:00:00.000Z''\<rparr>],
     idCounter = 3\<rparr>"

definition kenneyResult :: runState where
  "kenneyResult = \<lparr>manifest =
     [\<lparr>id' = 1, path = ''audio/Kenney/kenney_impact-sounds/Audio/footstep_00.ogg'',
       name = ''Footstep 00'', category = ''Impact Sounds'', format = ''ogg'', size' = 20,
       duration = 0, rating = 0, tags = [''impact'', ''hit'', ''footstep'', ''walk''],
       description = ''Footstep 00 from Kenney Impact Sounds collection.'',
       library = ''Kenney'', dateAdded = ''1970-01-01T00:00:00.000Z''\<rparr>,
      \<lparr>id' = 2, path = ''audio/Kenney/kenney_voiceover-pack/Male/war_go.ogg'',
       name = ''War Go (Male)'', category = ''Voices'', format = ''ogg'', size' = 40,
       duration = 0, rating = 0, tags = [''male'', ''voice'', ''war'', ''combat'', ''go''],
       description = ''War Go (Male) from Kenney Voices collection.'',
       library = ''Kenney'', dateAdded = ''1970-01-01T00:00:00.000Z''\<rparr>],
     idCounter = 3\<rparr>"

definition filmCowTree :: "fsnode option" where
  "filmCowTree = Some (Dir ''FilmCow'' 0
     [Dir ''FilmCow Recorded SFX'' 0 [File ''mr.smith_door.ogg'' 8]])"

definition filmCowResult :: runState where
  "filmCowResult = \<lparr>manifest =
     [\<lparr>id' = 1, path = ''audio/FilmCow/FilmCow Recorded SFX/mr.smith_door.ogg'',
       name = ''Mr.Smith Door'', category = ''Recorded SFX'', format = ''ogg'', size' = 8,
       duration = 0, rating = 0, tags = [''recorded'', ''foley'', ''door'', ''transition''],
       description = ''Mr.Smith Door from FilmCow Recorded SFX collection.'',
       library = ''FilmCow'', dateAdded = ''1970-01-01T00:00:00.000Z''\<rparr>],
     idCounter = 2\<rparr>"

definition scenarioAResult :: runState where
  "scenarioAResult = \<lparr>manifest =
     [\<lparr>id' = 1, path = ''audio/Other/RetroGames/bomb_jack_theme.ogg'',
       name = ''Bomb Jack Theme'', category = ''RetroGames'', format = ''ogg'', size' = 34,
       duration = 0, rating = 0,
       tags = [''retrogames'', ''retro'', ''game music'', ''soundtrack'', ''theme'', ''title'',
               ''menu''],
       description = ''Bomb Jack Theme from Other RetroGames collection.'',
       library = ''Other'', dateAdded = ''1970-01-01T00:00:00.000Z''\<rparr>],
     idCounter = 2\<rparr>"


section \<open>Deduplication\<close>

lemma setAdd_fold: "distinct acc \<Longrightarrow> foldl setAdd acc ts = acc @ keepFirst (filter (\<lambda>t. t \<notin> set acc) ts)"
proof (induction ts arbitrary: acc rule: length_induct)
  case (1 ts)
  show ?case
  proof (cases ts)
    case Nil then show ?thesis by simp
  next
    case (Cons t rest)
    show ?thesis
    proof (cases "t \<in> set acc")
      case True
      with 1 Cons show ?thesis by (simp add: setAdd_def)
    next
      case False
      have d: "distinct (acc @ [t])" using False "1.prems" by simp
      have "foldl setAdd acc ts = foldl setAdd (acc @ [t]) rest"
        using False Cons by (simp add: setAdd_def)
      also have "\<dots> = (acc @ [t]) @ keepFirst (filter (\<lambda>u. u \<notin> set (acc @ [t])) rest)"
        using 1 Cons d by simp
      also have "filter (\<lambda>u. u \<notin> set (acc @ [t])) rest = filter (\<lambda>y. y \<noteq> t) (filter (\<lambda>t. t \<notin> set acc) rest)"
        by (induction rest) auto
      finally show ?thesis using False Cons by simp
    qed
  qed
qed

lemma uniqueTags_keepFirst: "uniqueTags ts = keepFirst ts"
  using setAdd_fold [of "[]" ts] by (simp add: uniqueTags_def)

lemma keepFirst_set: "set (keepFirst xs) = set xs"
  by (induction xs rule: keepFirst.induct) auto

lemma keepFirst_distinct: "distinct (keepFirst xs)"
  by (induction xs rule: keepFirst.induct) (auto simp: keepFirst_set)

section \<open>Invariants of a run\<close>

lemma forEach_invariant:
  assumes step: "\<And>x st st'. I st \<Longrightarrow> body x st = Inr st' \<Longrightarrow> I st'"
  shows "I st \<Longrightarrow> forEach body xs st = Inr st' \<Longrightarrow> I st'"
proof (induction xs arbitrary: st)
  case Nil
  then show ?case by simp
next
  case (Cons x xs)
  from Cons.prems(2) obtain st1 where b: "body x st = Inr st1" and r: "forEach body xs st1 = Inr st'"
    by (auto split: sum.splits)
  have "I st1" using step[of st x st1] Cons.prems(1) b by simp
  then show ?case using Cons.IH[of st1] r by simp
qed

lemma child_passed: "subcategoryPassed g s \<Longrightarrow> subcategoryPassed g (childSubcategory g s n)"
  by (cases g) simp_all

lemma walkItems_invariant:
  assumes step: "\<And>d s f sz st. subcategoryPassed g s \<Longrightarrow> I st \<Longrightarrow> I (processFile g now d c s f sz st)"
  shows "subcategoryPassed g sub \<Longrightarrow> I st \<Longrightarrow> I (walkItems g now dirPath c sub items st)"
  using step
proof (induction g now dirPath c sub items st rule: walkItems.induct)
  case (1 g now dirPath categoryName subcategory st)
  then show ?case by simp
next
  case (2 g now dirPath categoryName subcategory n sz items st)
  then show ?case by simp
next
  case (3 g now dirPath categoryName subcategory n sz sub items st)
  show ?case
  proof (cases "g = Kenney")
    case True
    then show ?thesis using 3 by simp
  next
    case False
    have p: "subcategoryPassed g (childSubcategory g subcategory n)"
      using "3.prems"(1) by (rule child_passed)
    have "I (walkItems g now (dirPath @ [n]) categoryName (childSubcategory g subcategory n) sub st)"
      using "3.IH"(1)[OF False p "3.prems"(2)] "3.prems"(3) by blast
    then show ?thesis using False "3.IH"(2) "3.prems"(1,3) by simp
  qed
qed

lemma processAudioDirectory_invariant:
  assumes "\<And>d s f sz st. subcategoryPassed g s \<Longrightarrow> I st \<Longrightarrow> I (processFile g now d c s f sz st)"
    and "subcategoryPassed g sub"
    and "I st" and "processAudioDirectory g now dirPath c sub target st = Inr st'"
  shows "I st'"
  using assms(3,4) walkItems_invariant[of g I now c sub, OF assms(1,2)]
  by (auto simp: processAudioDirectory_def split: if_splits sum.splits)

lemma kenneyFolder_invariant:
  assumes "\<And>d s f sz st. subcategoryPassed Kenney s \<Longrightarrow> I st \<Longrightarrow> I (processFile Kenney now d c s f sz st)"
    and "subcategoryPassed Kenney sub"
    and "I st" and "kenneyFolder now subdir c packDir folder sub st = Inr st'"
  shows "I st'"
  using assms(3,4) processAudioDirectory_invariant[of Kenney I now c sub, OF assms(1,2)]
  by (auto simp: kenneyFolder_def Let_def split: if_splits)

lemma processSubdir_invariant:
  assumes step: "\<And>d c s f sz st. subcategoryPassed g s \<Longrightarrow> I st \<Longrightarrow> I (processFile g now d c s f sz st)"
    and "I st" and "processSubdir g now x st = Inr st'"
  shows "I st'"
proof (cases "g = Kenney")
  case True
  let ?c = "categoryOf Kenney (nodeName x)"
  from assms(3) True obtain st1 st2 where
      a: "kenneyFolder now (nodeName x) ?c (Some x) ''Audio'' [] st = Inr st1"
    and b: "kenneyFolder now (nodeName x) ?c (Some x) ''Male'' ''Male'' st1 = Inr st2"
    and c: "kenneyFolder now (nodeName x) ?c (Some x) ''Female'' ''Female'' st2 = Inr st'"
    by (auto simp: processSubdir_def kenneySubdir_def Let_def split: sum.splits)
  have k: "\<And>d s f sz st. subcategoryPassed Kenney s \<Longrightarrow> I st \<Longrightarrow> I (processFile Kenney now d ?c s f sz st)"
    using step True by simp
  have "I st1"
    using kenneyFolder_invariant[of I now ?c "[]", OF k _ assms(2) a] by simp
  then have "I st2"
    using kenneyFolder_invariant[of I now ?c "''Male''", OF k _ _ b] by simp
  then show ?thesis
    using kenneyFolder_invariant[of I now ?c "''Female''", OF k _ _ c] by simp
next
  case False
  have p: "subcategoryPassed g []" by (cases g) simp_all
  show ?thesis
    using False assms(2,3)
      processAudioDirectory_invariant[of g I now "categoryOf g (nodeName x)" "[]", OF step p]
    by (simp add: processSubdir_def)
qed

lemma processCategory_invariant:
  assumes step: "\<And>d c s f sz st. I st \<Longrightarrow> I (processFile H360s now d c s f sz st)"
    and "I st" and "processCategory now base c st = Inr st'"
  shows "I st'"
proof (cases "existsSync (childOf base c)")
  case True
  then have r: "processAudioDirectory H360s now [c] c [] (childOf base c) st = Inr st'"
    using assms(3) by (simp add: processCategory_def Let_def)
  have s: "\<And>d s f sz st. subcategoryPassed H360s s \<Longrightarrow> I st
             \<Longrightarrow> I (processFile H360s now d c s f sz st)"
    using step by simp
  have p: "subcategoryPassed H360s []" by simp
  show ?thesis
    by (rule processAudioDirectory_invariant[of H360s I now c "[]", OF s p assms(2) r])
next
  case False
  then show ?thesis using assms(2,3) by (simp add: processCategory_def Let_def)
qed

lemma scan_invariant:
  assumes step: "\<And>d c s f sz st. subcategoryPassed g s \<Longrightarrow> I st \<Longrightarrow> I (processFile g now d c s f sz st)"
    and init: "I initialState" and run: "scan g now base = Inr st"
  shows "I st"
proof (cases "g = H360s")
  case True
  then have r: "forEach (processCategory now base) categories initialState = Inr st"
    using run by (simp add: scan_def)
  have s: "\<And>d c s f sz st. I st \<Longrightarrow> I (processFile H360s now d c s f sz st)"
    using step True by simp
  show ?thesis
    using forEach_invariant[of I "processCategory now base" initialState categories st]
      processCategory_invariant[of I now, OF s] init r by blast
next
  case False
  then obtain entries where
    r: "forEach (processSubdir g now) (filter isDirectory entries) initialState = Inr st"
    using run by (auto simp: scan_def split: sum.splits)
  show ?thesis
    using forEach_invariant[of I "processSubdir g now" initialState "filter isDirectory entries" st]
      processSubdir_invariant[of g I now, OF step] init r by blast
qed

lemma scan_provenance:
  assumes "scan g now base = Inr st" and "r \<in> set (manifest st)"
  shows "\<exists>k d c s f sz. r = buildRecord g now k d c s f sz \<and> extOf f \<in> set allowList \<and>
           subcategoryPassed g s"
proof -
  let ?I = "\<lambda>st::runState. \<forall>r\<in>set (manifest st).
              \<exists>k d c s f sz. r = buildRecord g now k d c s f sz \<and> extOf f \<in> set allowList \<and>
                subcategoryPassed g s"
  have "?I st"
  proof (rule scan_invariant[of g ?I now base st])
    fix d c s f sz st0
    assume "subcategoryPassed g s" and "?I st0"
    then show "?I (processFile g now d c s f sz st0)"
      by (simp add: processFile_def) blast
  next
    show "?I initialState" by (simp add: initialState_def)
  next
    show "scan g now base = Inr st" by fact
  qed
  then show ?thesis using assms(2) by blast
qed

lemma buildRecord_fields [simp]:
  "id' (buildRecord g now k d c s f sz) = k"
  "category (buildRecord g now k d c s f sz) = c"
  "format (buildRecord g now k d c s f sz) = extOf f"
  "size' (buildRecord g now k d c s f sz) = sz"
  "path (buildRecord g now k d c s f sz) = joinPath ([''audio'', libraryFolder g] @ d @ [f])"
  "name (buildRecord g now k d c s f sz) = displayName g (nameOf (basename f (extname f))) s"
  "tags (buildRecord g now k d c s f sz) = uniqueTags (pushedTags g c s (basename f (extname f)))"
  "dateAdded (buildRecord g now k d c s f sz) = now k"
  "library (buildRecord g now k d c s f sz) = libraryFolder g"
  by (simp_all add: buildRecord_def Let_def)


section \<open>Evaluated examples\<close>

lemma boomTree_scan: "scan BoomLibrary epoch boomTree = Inr boomResult"
  by code_simp

lemma h360sTree_scan: "scan H360s epoch h360sTree = Inr h360sResult"
  by code_simp

lemma kenneyTree_scan: "scan Kenney epoch kenneyTree = Inr kenneyResult"
  by code_simp

lemma filmCowTree_scan: "scan FilmCow epoch filmCowTree = Inr filmCowResult"
  by code_simp

lemma scenarioA_scan: "scan Other epoch scenarioA = Inr scenarioAResult"
  by code_simp

section \<open>Names and tags of one record\<close>

lemma whitespace_not_word: "isWhitespace c \<Longrightarrow> \<not> isWordChar c"
  by (auto simp: isWhitespace_def isWordChar_def)

lemma specUpper_eq: "specUpper c = upperWordChar c"
  by (simp add: specUpper_def upperWordChar_def)

lemma upperAtBoundary_specTitle:
  "list_all (\<lambda>c. isWordChar c \<or> isWhitespace c) xs \<Longrightarrow>
   upperAtBoundary (\<not> b) xs = specTitle b xs"
proof (induction xs arbitrary: b)
  case Nil
  then show ?case by simp
next
  case (Cons c cs)
  show ?case
  proof (cases "isWhitespace c")
    case True
    then have "\<not> isWordChar c" by (rule whitespace_not_word)
    then show ?thesis using True Cons.IH[of True] Cons.prems by simp
  next
    case False
    then have "isWordChar c" using Cons.prems by simp
    then show ?thesis using False Cons.IH[of False] Cons.prems
      by (simp add: specUpper_eq)
  qed
qed

lemma nameOf_specName:
  assumes "plainStem stem"
  shows "nameOf stem = specName stem"
proof -
  have m: "replaceAllBySpace ''_-'' stem
      = map (\<lambda>c. if c = CHR ''_'' \<or> c = CHR ''-'' then CHR '' '' else c) stem"
    by (simp add: replaceAllBySpace_def)
  have sp: "isWhitespace (CHR '' '')" by (simp add: isWhitespace_def)
  have "list_all (\<lambda>c. isWordChar c \<or> isWhitespace c)
          (map (\<lambda>c. if c = CHR ''_'' \<or> c = CHR ''-'' then CHR '' '' else c) stem)"
    using assms sp by (induction stem) (auto simp: plainStem_def)
  from upperAtBoundary_specTitle[OF this, of True] show ?thesis
    by (simp add: nameOf_def specName_def capitalizeWords_def m)
qed

lemma pushedTags_category:
  "pushesCategory g \<Longrightarrow> toLowerCase c \<in> set (pushedTags g c s stem)"
  by (simp add: pushedTags_def Let_def)

lemma applyRules_subcategory_rule:
  assumes "(SubcategoryIs, [p], pushed) \<in> set rs" and "t \<in> set pushed"
  shows "t \<in> set (applyRules lowerName lowerCat p rs)"
  using assms(1)
proof (induction rs)
  case Nil
  then show ?case by simp
next
  case (Cons x rs)
  obtain sc pats ts where x: "x = (sc, pats, ts)" by (cases x)
  show ?case
  proof (cases "x = (SubcategoryIs, [p], pushed)")
    case True
    then show ?thesis using assms(2) by simp
  next
    case False
    then have "(SubcategoryIs, [p], pushed) \<in> set rs" using Cons.prems by simp
    then have "t \<in> set (applyRules lowerName lowerCat p rs)" by (rule Cons.IH)
    then show ?thesis using x by simp
  qed
qed

lemma kenney_male_rule: "(SubcategoryIs, [''male''], [''male'', ''voice'']) \<in> set kenneyRules"
  by code_simp

lemma kenney_female_rule: "(SubcategoryIs, [''female''], [''female'', ''voice'']) \<in> set kenneyRules"
  by code_simp

lemma lower_male: "toLowerCase ''Male'' = ''male''"
  by code_simp

lemma lower_female: "toLowerCase ''Female'' = ''female''"
  by code_simp

lemma pushedTags_subcategory:
  assumes "subcategoryPassed g s" and "s \<noteq> []"
  shows "toLowerCase s \<in> set (pushedTags g c s stem)"
proof (cases "pushesCategory g")
  case True
  then show ?thesis using assms(2) by (simp add: pushedTags_def Let_def)
next
  case False
  then have "g = FilmCow \<or> g = Kenney" by (cases g) simp_all
  then have k: "g = Kenney" and s: "s = ''Male'' \<or> s = ''Female''" using assms by auto
  from s show ?thesis
  proof
    assume "s = ''Male''"
    then show ?thesis
      using k applyRules_subcategory_rule[OF kenney_male_rule, of "''male''"]
      by (simp add: pushedTags_def Let_def lower_male)
  next
    assume "s = ''Female''"
    then show ?thesis
      using k applyRules_subcategory_rule[OF kenney_female_rule, of "''female''"]
      by (simp add: pushedTags_def Let_def lower_female)
  qed
qed

lemma uniqueTags_set: "set (uniqueTags ts) = set ts"
  by (simp add: uniqueTags_keepFirst keepFirst_set)

section \<open>The walk as a fold over the files below a folder\<close>

lemma filesBelow_prefix:
  "filesBelow (p @ q) items = map (\<lambda>v. (p @ fst v, snd v)) (filesBelow q items)"
  by (induction q items rule: filesBelow.induct) simp_all

lemma filesBelow_rel:
  "filesBelow [n] items = map (\<lambda>v. (n # fst v, snd v)) (filesBelow [] items)"
  using filesBelow_prefix[of "[n]" "[]" items] by simp

lemma foldl_visit_shift:
  "foldl (visit g now dir c subOf) st (map (\<lambda>v. (n # fst v, snd v)) xs)
     = foldl (visit g now (dir @ [n]) c (\<lambda>d. subOf (n # d))) st xs"
  by (induction xs arbitrary: st) (simp_all add: visit_def)

lemma walk_flat:
  assumes "g \<noteq> Kenney"
  shows "walkItems g now dir c sub items st
     = foldl (visit g now dir c (\<lambda>d. foldl (childSubcategory g) sub d)) st (filesBelow [] items)"
  using assms
proof (induction g now dir c sub items st rule: walkItems.induct)
  case (1 g now dirPath categoryName subcategory st)
  then show ?case by simp
next
  case (2 g now dirPath categoryName subcategory n sz items st)
  then show ?case by (simp add: visit_def)
next
  case (3 g now dirPath categoryName subcategory n sz sub items st)
  then show ?case by (simp add: filesBelow_rel foldl_visit_shift)
qed

lemma walk_fixed_subcategory:
  assumes "g = H360s" and "sub \<noteq> []"
  shows "walkItems g now dir c sub items st
     = foldl (visit g now dir c (\<lambda>d. sub)) st (filesBelow [] items)"
  using assms
proof (induction g now dir c sub items st rule: walkItems.induct)
  case (1 g now dirPath categoryName subcategory st)
  then show ?case by simp
next
  case (2 g now dirPath categoryName subcategory n sz items st)
  then show ?case by (simp add: visit_def)
next
  case (3 g now dirPath categoryName subcategory n sz sub items st)
  then show ?case
    by (simp add: filesBelow_rel foldl_visit_shift)
qed

lemma walk_first_level:
  assumes "dirsNamed items"
  shows "walkItems H360s now dir c [] items st
     = foldl (visit H360s now dir c firstLevel) st (filesBelow [] items)"
  using assms
proof (induction items arbitrary: st)
  case Nil
  then show ?case by simp
next
  case (Cons x items)
  show ?case
  proof (cases x)
    case (File n sz)
    then show ?thesis using Cons by (simp add: visit_def)
  next
    case (Dir n sz kids)
    then have n: "n \<noteq> []" and rest: "dirsNamed items" using Cons.prems by simp_all
    have inner: "walkItems H360s now (dir @ [n]) c n kids st
        = foldl (visit H360s now (dir @ [n]) c (\<lambda>d. n)) st (filesBelow [] kids)"
      using walk_fixed_subcategory[of H360s n now "dir @ [n]" c kids st] n by simp
    show ?thesis
      using Dir n Cons.IH[OF rest] inner
      by (simp add: filesBelow_rel foldl_visit_shift)
  qed
qed

lemma walk_immediate_parent:
  assumes "boomStyle g"
  shows "walkItems g now dir c sub items st
     = foldl (visit g now dir c (\<lambda>d. if d = [] then sub else last d)) st (filesBelow [] items)"
  using assms
proof (induction g now dir c sub items st rule: walkItems.induct)
  case (1 g now dirPath categoryName subcategory st)
  then show ?case by simp
next
  case (2 g now dirPath categoryName subcategory n sz items st)
  then show ?case by (simp add: visit_def)
next
  case (3 g now dirPath categoryName subcategory n sz sub items st)
  have k: "g \<noteq> Kenney" and cs: "childSubcategory g subcategory n = n"
    using "3.prems" by (auto simp: boomStyle_def)
  show ?case
    using k cs "3.IH"(1)[OF k "3.prems", unfolded cs] "3.IH"(2)[OF "3.prems"]
    by (simp add: filesBelow_rel foldl_visit_shift)
qed

section \<open>Every file below a scanned folder\<close>

lemma processFile_keeps: "r \<in> set (manifest st) \<Longrightarrow> r \<in> set (manifest (processFile g now d c s f sz st))"
  by (simp add: processFile_def)

lemma foldl_visit_keeps:
  "r \<in> set (manifest st) \<Longrightarrow> r \<in> set (manifest (foldl (visit g now dir c subOf) st vs))"
  by (induction vs arbitrary: st) (simp_all add: visit_def processFile_keeps)

lemma foldl_visit_emits:
  assumes "(d, f, sz) \<in> set vs" and "extOf f \<in> set allowList"
  shows "\<exists>r\<in>set (manifest (foldl (visit g now dir c subOf) st vs)).
           path r = joinPath ([''audio'', libraryFolder g] @ (dir @ d) @ [f]) \<and>
           category r = c \<and> format r = extOf f \<and> size' r = sz"
  using assms(1)
proof (induction vs arbitrary: st)
  case Nil
  then show ?case by simp
next
  case (Cons v vs)
  show ?case
  proof (cases "v = (d, f, sz)")
    case True
    let ?r = "buildRecord g now (idCounter st) (dir @ d) c (subOf d) f sz"
    have "?r \<in> set (manifest (visit g now dir c subOf st v))"
      using True assms(2) by (simp add: visit_def processFile_def)
    then have "?r \<in> set (manifest (foldl (visit g now dir c subOf) st (v # vs)))"
      using foldl_visit_keeps[of ?r "visit g now dir c subOf st v" g now dir c subOf vs] by simp
    moreover have "path ?r = joinPath ([''audio'', libraryFolder g] @ (dir @ d) @ [f]) \<and>
           category ?r = c \<and> format ?r = extOf f \<and> size' ?r = sz" by simp
    ultimately show ?thesis by blast
  next
    case False
    then have "(d, f, sz) \<in> set vs" using Cons.prems by simp
    from Cons.IH[OF this, of "visit g now dir c subOf st v"] show ?thesis by simp
  qed
qed

lemma walkItems_emits:
  assumes "g \<noteq> Kenney" and "(d, f, sz) \<in> set (filesBelow [n] items)" and "extOf f \<in> set allowList"
  shows "\<exists>r\<in>set (manifest (walkItems g now [n] c sub items st)).
           path r = joinPath ([''audio'', libraryFolder g] @ d @ [f]) \<and>
           category r = c \<and> format r = extOf f \<and> size' r = sz"
proof -
  from assms(2) obtain d' where d: "d = n # d'" and m: "(d', f, sz) \<in> set (filesBelow [] items)"
    by (auto simp: filesBelow_rel)
  show ?thesis
    using foldl_visit_emits[OF m assms(3), of g now "[n]" c _ st] walk_flat[OF assms(1)] d
    by simp
qed

lemma forEach_append:
  "forEach body (ys @ zs) st
     = (case forEach body ys st of Inl e \<Rightarrow> Inl e | Inr s \<Rightarrow> forEach body zs s)"
  by (induction ys arbitrary: st) (simp_all split: sum.splits)

lemma forEach_split:
  assumes "forEach body xs st = Inr st'" and "x \<in> set xs"
  shows "\<exists>s1 s2 zs. body x s1 = Inr s2 \<and> forEach body zs s2 = Inr st'"
proof -
  from assms(2) obtain ys zs where xs: "xs = ys @ x # zs" by (auto dest: split_list)
  from assms(1) obtain s1 where "forEach body ys st = Inr s1" and r: "forEach body (x # zs) s1 = Inr st'"
    unfolding xs forEach_append by (auto split: sum.splits)
  from r obtain s2 where "body x s1 = Inr s2" and "forEach body zs s2 = Inr st'"
    by (auto split: sum.splits)
  then show ?thesis by blast
qed

lemma processSubdir_keeps:
  assumes "r \<in> set (manifest st)" and "processSubdir g now x st = Inr st'"
  shows "r \<in> set (manifest st')"
  using processSubdir_invariant[of g "\<lambda>st. r \<in> set (manifest st)" now st x st'] assms
  by (simp add: processFile_keeps)

lemma processCategory_keeps:
  assumes "r \<in> set (manifest st)" and "processCategory now base c st = Inr st'"
  shows "r \<in> set (manifest st')"
  using processCategory_invariant[of "\<lambda>st. r \<in> set (manifest st)" now st base c st'] assms
  by (simp add: processFile_keeps)

lemma child_named: "child items c = Some x \<Longrightarrow> nodeName x = c"
  by (auto simp: child_def find_Some_iff)

section \<open>Files outside the allow-list\<close>

lemma processFile_skips: "extOf f \<notin> set allowList \<Longrightarrow> processFile g now d c s f sz st = st"
  by (simp add: processFile_def)

lemma walkItems_prune:
  "walkItems g now dir c sub (prune items) st = walkItems g now dir c sub items st"
proof (induction g now dir c sub items st rule: walkItems.induct)
  case (1 g now dirPath categoryName subcategory st)
  then show ?case by simp
next
  case (2 g now dirPath categoryName subcategory n sz items st)
  show ?case
  proof (cases "extOf n \<in> set allowList")
    case True
    then show ?thesis using 2 by simp
  next
    case False
    then show ?thesis using 2 by (simp add: processFile_skips)
  qed
next
  case (3 g now dirPath categoryName subcategory n sz sub items st)
  then show ?case by (cases "g = Kenney") simp_all
qed

lemma child_prune_none: "child items x = None \<Longrightarrow> child (prune items) x = None"
  by (induction items rule: prune.induct) (auto simp: child_def split: if_splits)

lemma child_prune_dir:
  "child items x = Some (Dir m msz kids) \<Longrightarrow> child (prune items) x = Some (Dir m msz (prune kids))"
  by (induction items rule: prune.induct) (auto simp: child_def split: if_splits)

lemma guarded_prune:
  assumes "(if existsSync (child items x)
            then processAudioDirectory g now dir c sub (child items x) st else Inr st) = Inr st'"
  shows "(if existsSync (child (prune items) x)
          then processAudioDirectory g now dir c sub (child (prune items) x) st else Inr st) = Inr st'"
proof (cases "child items x")
  case None
  then have "child (prune items) x = None" by (rule child_prune_none)
  then show ?thesis using assms None by (simp add: existsSync_def)
next
  case (Some y)
  show ?thesis
  proof (cases y)
    case (File n sz)
    then have False using assms Some by (simp add: existsSync_def processAudioDirectory_def)
    then show ?thesis ..
  next
    case (Dir m msz kids)
    then have "child (prune items) x = Some (Dir m msz (prune kids))"
      using Some child_prune_dir by simp
    then show ?thesis using assms Some Dir
      by (simp add: existsSync_def processAudioDirectory_def walkItems_prune)
  qed
qed

lemma kenneyFolder_prune:
  assumes "kenneyFolder now sd c (Some (Dir n sz items)) folder sub st = Inr st'"
  shows "kenneyFolder now sd c (Some (Dir n sz (prune items))) folder sub st = Inr st'"
proof -
  have "(if existsSync (child items folder)
         then processAudioDirectory Kenney now [sd, folder] c sub (child items folder) st
         else Inr st) = Inr st'"
    using assms by (simp add: kenneyFolder_def Let_def)
  from guarded_prune[OF this] show ?thesis by (simp add: kenneyFolder_def Let_def)
qed

lemma processSubdir_prune:
  assumes "processSubdir g now (Dir n sz items) st = Inr st'"
  shows "processSubdir g now (Dir n sz (prune items)) st = Inr st'"
proof (cases "g = Kenney")
  case True
  let ?c = "categoryOf Kenney n"
  have k: "kenneySubdir now (Dir n sz items) st = Inr st'"
    using assms True by (simp add: processSubdir_def)
  obtain st1 where
      a: "kenneyFolder now n ?c (Some (Dir n sz items)) ''Audio'' [] st = Inr st1"
    using k by (cases "kenneyFolder now n ?c (Some (Dir n sz items)) ''Audio'' [] st")
      (simp_all add: kenneySubdir_def Let_def)
  obtain st2 where
      b: "kenneyFolder now n ?c (Some (Dir n sz items)) ''Male'' ''Male'' st1 = Inr st2"
    using k a by (cases "kenneyFolder now n ?c (Some (Dir n sz items)) ''Male'' ''Male'' st1")
      (simp_all add: kenneySubdir_def Let_def)
  have c: "kenneyFolder now n ?c (Some (Dir n sz items)) ''Female'' ''Female'' st2 = Inr st'"
    using k a b by (simp add: kenneySubdir_def Let_def)
  show ?thesis
    using True kenneyFolder_prune[OF a] kenneyFolder_prune[OF b] kenneyFolder_prune[OF c]
    by (simp add: processSubdir_def kenneySubdir_def Let_def)
next
  case False
  then show ?thesis using assms
    by (simp add: processSubdir_def processAudioDirectory_def existsSync_def walkItems_prune)
qed

lemma forEach_subdirs_prune:
  "forEach (processSubdir g now) (filter isDirectory items) st = Inr st' \<Longrightarrow>
   forEach (processSubdir g now) (filter isDirectory (prune items)) st = Inr st'"
proof (induction items arbitrary: st rule: prune.induct)
  case 1
  then show ?case by simp
next
  case (2 n sz items)
  then show ?case by simp
next
  case (3 n sz sub items)
  from "3.prems" obtain st1 where a: "processSubdir g now (Dir n sz sub) st = Inr st1"
    and b: "forEach (processSubdir g now) (filter isDirectory items) st1 = Inr st'"
    by (auto split: sum.splits)
  show ?case using processSubdir_prune[OF a] "3.IH"(2)[OF b] by simp
qed

lemma processCategory_prune:
  assumes "processCategory now base c st = Inr st'"
  shows "processCategory now (pruneBase base) c st = Inr st'"
proof (cases base)
  case None
  then show ?thesis using assms by simp
next
  case (Some b)
  show ?thesis
  proof (cases b)
    case (File n sz)
    then show ?thesis using assms Some by simp
  next
    case (Dir n sz items)
    have "(if existsSync (child items c)
           then processAudioDirectory H360s now [c] c [] (child items c) st
           else Inr st) = Inr st'"
      using assms Some Dir by (simp add: processCategory_def Let_def)
    from guarded_prune[OF this] show ?thesis
      using Some Dir by (simp add: processCategory_def Let_def)
  qed
qed

lemma forEach_mono:
  assumes "\<And>x st st'. body x st = Inr st' \<Longrightarrow> body' x st = Inr st'"
  shows "forEach body xs st = Inr st' \<Longrightarrow> forEach body' xs st = Inr st'"
proof (induction xs arbitrary: st)
  case Nil
  then show ?case by simp
next
  case (Cons x xs)
  from Cons.prems obtain st1 where a: "body x st = Inr st1" and b: "forEach body xs st1 = Inr st'"
    by (auto split: sum.splits)
  show ?case using assms[OF a] Cons.IH[OF b] by simp
qed

lemma scan_prune:
  assumes "scan g now base = Inr st"
  shows "scan g now (pruneBase base) = Inr st"
proof (cases "g = H360s")
  case True
  then show ?thesis
    using assms forEach_mono[of "processCategory now base" "processCategory now (pruneBase base)"
        categories initialState st] processCategory_prune
    by (simp add: scan_def)
next
  case False
  from assms False obtain entries where e: "readdirSync base = Inr entries"
    and run: "forEach (processSubdir g now) (filter isDirectory entries) initialState = Inr st"
    by (auto simp: scan_def split: sum.splits)
  from e obtain n sz where "base = Some (Dir n sz entries)"
    by (cases base rule: readdirSync.cases) auto
  then show ?thesis using False forEach_subdirs_prune[OF run] by (simp add: scan_def)
qed

section \<open>Two runs on the same tree\<close>

lemma undated_buildRecord:
  "undated (buildRecord g now k d c s f sz) = buildRecord g noClock k d c s f sz"
  by (simp add: undated_def buildRecord_def Let_def noClock_def)

lemma undated_processFile:
  "undatedState (processFile g now d c s f sz st)
     = processFile g noClock d c s f sz (undatedState st)"
  by (simp add: processFile_def undatedState_def undated_buildRecord)

lemma undated_walkItems:
  "undatedState (walkItems g now dirPath c sub items st)
     = walkItems g noClock dirPath c sub items (undatedState st)"
proof (induction g now dirPath c sub items st rule: walkItems.induct)
  case (1 g now dirPath categoryName subcategory st)
  then show ?case by simp
next
  case (2 g now dirPath categoryName subcategory n sz items st)
  then show ?case by (simp add: undated_processFile)
next
  case (3 g now dirPath categoryName subcategory n sz sub items st)
  then show ?case by (cases "g = Kenney") (simp_all add: undated_processFile)
qed

lemma undated_processAudioDirectory:
  "map_sum (\<lambda>e. e) undatedState (processAudioDirectory g now dirPath c sub target st)
     = processAudioDirectory g noClock dirPath c sub target (undatedState st)"
  by (simp add: processAudioDirectory_def undated_walkItems split: sum.splits)

lemma undated_forEach:
  assumes "\<And>x st. map_sum (\<lambda>e. e) undatedState (body x st) = body' x (undatedState st)"
  shows "map_sum (\<lambda>e. e) undatedState (forEach body xs st) = forEach body' xs (undatedState st)"
proof (induction xs arbitrary: st)
  case Nil
  then show ?case by simp
next
  case (Cons x xs)
  show ?case
  proof (cases "body x st")
    case (Inl e)
    then have "body' x (undatedState st) = Inl e" using assms[of x st] by simp
    then show ?thesis using Inl by simp
  next
    case (Inr st1)
    then have "body' x (undatedState st) = Inr (undatedState st1)" using assms[of x st] by simp
    then show ?thesis using Inr Cons.IH[of st1] by simp
  qed
qed

lemma undated_kenneyFolder:
  "map_sum (\<lambda>e. e) undatedState (kenneyFolder now subdir c packDir folder sub st)
     = kenneyFolder noClock subdir c packDir folder sub (undatedState st)"
  by (simp add: kenneyFolder_def Let_def undated_processAudioDirectory)

lemma undated_kenneySubdir:
  "map_sum (\<lambda>e. e) undatedState (kenneySubdir now x st) = kenneySubdir noClock x (undatedState st)"
proof -
  let ?c = "categoryOf Kenney (nodeName x)"
  show ?thesis
  proof (cases "kenneyFolder now (nodeName x) ?c (Some x) ''Audio'' [] st")
    case (Inl e)
    then have "kenneyFolder noClock (nodeName x) ?c (Some x) ''Audio'' [] (undatedState st) = Inl e"
      using undated_kenneyFolder[of now "nodeName x" ?c "Some x" "''Audio''" "[]" st] by simp
    then show ?thesis using Inl by (simp add: kenneySubdir_def Let_def)
  next
    case a: (Inr st1)
    then have a': "kenneyFolder noClock (nodeName x) ?c (Some x) ''Audio'' [] (undatedState st)
        = Inr (undatedState st1)"
      using undated_kenneyFolder[of now "nodeName x" ?c "Some x" "''Audio''" "[]" st] by simp
    show ?thesis
    proof (cases "kenneyFolder now (nodeName x) ?c (Some x) ''Male'' ''Male'' st1")
      case (Inl e)
      then have "kenneyFolder noClock (nodeName x) ?c (Some x) ''Male'' ''Male'' (undatedState st1) = Inl e"
        using undated_kenneyFolder[of now "nodeName x" ?c "Some x" "''Male''" "''Male''" st1] by simp
      then show ?thesis using a a' Inl by (simp add: kenneySubdir_def Let_def)
    next
      case b: (Inr st2)
      then have b': "kenneyFolder noClock (nodeName x) ?c (Some x) ''Male'' ''Male'' (undatedState st1)
          = Inr (undatedState st2)"
        using undated_kenneyFolder[of now "nodeName x" ?c "Some x" "''Male''" "''Male''" st1] by simp
      show ?thesis using a a' b b'
          undated_kenneyFolder[of now "nodeName x" ?c "Some x" "''Female''" "''Female''" st2]
        by (simp add: kenneySubdir_def Let_def)
    qed
  qed
qed

lemma undated_processSubdir:
  "map_sum (\<lambda>e. e) undatedState (processSubdir g now x st) = processSubdir g noClock x (undatedState st)"
  by (simp add: processSubdir_def undated_kenneySubdir undated_processAudioDirectory)

lemma undated_processCategory:
  "map_sum (\<lambda>e. e) undatedState (processCategory now base c st)
     = processCategory noClock base c (undatedState st)"
  by (simp add: processCategory_def Let_def undated_processAudioDirectory)

lemma undated_initial: "undatedState initialState = initialState"
  by (simp add: undatedState_def initialState_def)

lemma undated_scan:
  "map_sum (\<lambda>e. e) undatedState (scan g now base) = scan g noClock base"
proof (cases "g = H360s")
  case True
  then show ?thesis
    using undated_forEach[of "processCategory now base" "processCategory noClock base"
        categories initialState, OF undated_processCategory]
    by (simp add: scan_def undated_initial)
next
  case False
  show ?thesis
  proof (cases "readdirSync base")
    case (Inl e)
    then show ?thesis using False by (simp add: scan_def)
  next
    case (Inr entries)
    then show ?thesis
      using False undated_forEach[of "processSubdir g now" "processSubdir g noClock"
          "filter isDirectory entries" initialState, OF undated_processSubdir]
      by (simp add: scan_def undated_initial)
  qed
qed

lemma content_undated: "content (undated r) = content r"
  by (simp add: content_def undated_def)

lemma recordContents_undated:
  "recordContents (map_sum (\<lambda>e. e) undatedState result) = recordContents result"
  by (cases result) (simp_all add: recordContents_def undatedState_def content_undated)

section \<open>The record of a file below a scanned folder\<close>

lemma filesBelow_named:
  "dirsNamed items \<Longrightarrow> (d, f, sz) \<in> set (filesBelow [] items) \<Longrightarrow> [] \<notin> set d"
proof (induction items arbitrary: d rule: dirsNamed.induct)
  case 1
  then show ?case by simp
next
  case (2 n fsz items)
  then show ?case by auto
next
  case (3 n dsz sub items)
  from "3.prems"(2) have "(d, f, sz) \<in> set (filesBelow [n] sub) \<or> (d, f, sz) \<in> set (filesBelow [] items)"
    by simp
  then show ?case
  proof
    assume "(d, f, sz) \<in> set (filesBelow [n] sub)"
    then obtain d' where d: "d = n # d'" and m: "(d', f, sz) \<in> set (filesBelow [] sub)"
      by (auto simp: filesBelow_rel)
    have "[] \<notin> set d'" using "3.IH"(1)[OF _ m] "3.prems"(1) by simp
    then show ?thesis using d "3.prems"(1) by auto
  next
    assume "(d, f, sz) \<in> set (filesBelow [] items)"
    then show ?thesis using "3.IH"(2) "3.prems"(1) by simp
  qed
qed

lemma firstLevel_named: "d \<noteq> [] \<Longrightarrow> [] \<notin> set d \<Longrightarrow> firstLevel d \<noteq> []"
  by (cases d) auto

lemma immediateParent_named:
  assumes "d \<noteq> []" and "[] \<notin> set d"
  shows "immediateParent d \<noteq> []"
proof -
  have "last d \<in> set d" using assms(1) by (rule last_in_set)
  then have "last d \<noteq> []" using assms(2) by auto
  then show ?thesis using assms(1) by (simp add: immediateParent_def)
qed

lemma foldl_visit_builds:
  assumes "(d, f, sz) \<in> set vs" and "extOf f \<in> set allowList"
  shows "\<exists>r\<in>set (manifest (foldl (visit g now dir c subOf) st vs)).
           r = buildRecord g now (id' r) (dir @ d) c (subOf d) f sz"
  using assms(1)
proof (induction vs arbitrary: st)
  case Nil
  then show ?case by simp
next
  case (Cons v vs)
  show ?case
  proof (cases "v = (d, f, sz)")
    case True
    let ?r = "buildRecord g now (idCounter st) (dir @ d) c (subOf d) f sz"
    have "?r \<in> set (manifest (visit g now dir c subOf st v))"
      using True assms(2) by (simp add: visit_def processFile_def)
    then have "?r \<in> set (manifest (foldl (visit g now dir c subOf) st (v # vs)))"
      using foldl_visit_keeps[of ?r "visit g now dir c subOf st v" g now dir c subOf vs] by simp
    moreover have "?r = buildRecord g now (id' ?r) (dir @ d) c (subOf d) f sz" by simp
    ultimately show ?thesis by blast
  next
    case False
    then have "(d, f, sz) \<in> set vs" using Cons.prems by simp
    from Cons.IH[OF this, of "visit g now dir c subOf st v"] show ?thesis by simp
  qed
qed

lemma scanned_folder_walk:
  assumes "g \<noteq> Kenney" and "scan g now base = Inr st"
    and "Dir c csz kids \<in> set (scannedFolders g base)"
  shows "\<exists>s1. set (manifest (walkItems g now [c] (categoryOf g c) [] kids s1)) \<subseteq> set (manifest st)"
proof (cases "g = H360s")
  case True
  have run: "forEach (processCategory now base) categories initialState = Inr st"
    using assms(2) True by (simp add: scan_def)
  from assms(3) True obtain cat where cat: "cat \<in> set categories"
    and ch: "childOf base cat = Some (Dir c csz kids)"
    by (auto simp: scannedFolders_def split: option.splits)
  have "cat = c"
  proof (cases base)
    case None
    then show ?thesis using ch by simp
  next
    case (Some b)
    then show ?thesis using ch child_named[of _ cat "Dir c csz kids"] by (cases b) auto
  qed
  from forEach_split[OF run cat] obtain s1 s2 zs
    where b: "processCategory now base cat s1 = Inr s2"
      and z: "forEach (processCategory now base) zs s2 = Inr st" by blast
  have s2: "s2 = walkItems g now [c] (categoryOf g c) [] kids s1"
    using b ch \<open>cat = c\<close> True
    by (simp add: processCategory_def Let_def existsSync_def processAudioDirectory_def)
  have "r \<in> set (manifest st)" if "r \<in> set (manifest s2)" for r
    using forEach_invariant[of "\<lambda>st. r \<in> set (manifest st)" "processCategory now base" s2 zs st]
      processCategory_keeps[of r _ now base] that z by blast
  then show ?thesis using s2 by blast
next
  case False
  from assms(2) False obtain entries where e: "readdirSync base = Inr entries"
    and run: "forEach (processSubdir g now) (filter isDirectory entries) initialState = Inr st"
    by (auto simp: scan_def split: sum.splits)
  have m: "Dir c csz kids \<in> set (filter isDirectory entries)"
    using assms(3) False e by (simp add: scannedFolders_def)
  from forEach_split[OF run m] obtain s1 s2 zs
    where b: "processSubdir g now (Dir c csz kids) s1 = Inr s2"
      and z: "forEach (processSubdir g now) zs s2 = Inr st" by blast
  have s2: "s2 = walkItems g now [c] (categoryOf g c) [] kids s1"
    using b assms(1)
    by (simp add: processSubdir_def existsSync_def processAudioDirectory_def)
  have "r \<in> set (manifest st)" if "r \<in> set (manifest s2)" for r
    using forEach_invariant[of "\<lambda>st. r \<in> set (manifest st)" "processSubdir g now" s2 zs st]
      processSubdir_keeps[of r _ g now] that z by blast
  then show ?thesis using s2 by blast
qed

lemma subcategory_tagged:
  assumes "pushesCategory g" and "s \<noteq> []" and "r = buildRecord g now k dir c s f sz"
  shows "toLowerCase s \<in> set (tags r)"
proof -
  have "subcategoryPassed g s" using assms(1) by (cases g) simp_all
  then show ?thesis using assms(2,3) by (simp add: uniqueTags_set pushedTags_subcategory)
qed

lemma first_level_recorded:
  assumes "dirsNamed items" and "scan H360s now base = Inr st"
    and "Dir c csz items \<in> set (scannedFolders H360s base)"
    and "(d, f, sz) \<in> set (filesBelow [] items)" and "extOf f \<in> set allowList" and "d \<noteq> []"
  shows "\<exists>r\<in>set (manifest st).
           r = buildRecord H360s now (id' r) (c # d) c (firstLevel d) f sz \<and>
           toLowerCase (firstLevel d) \<in> set (tags r)"
proof -
  from scanned_folder_walk[OF _ assms(2,3)] obtain s1
    where sub: "set (manifest (walkItems H360s now [c] c [] items s1)) \<subseteq> set (manifest st)"
    by auto
  from foldl_visit_builds[OF assms(4,5), of H360s now "[c]" c firstLevel s1]
  obtain r where r: "r \<in> set (manifest (walkItems H360s now [c] c [] items s1))"
    and b: "r = buildRecord H360s now (id' r) (c # d) c (firstLevel d) f sz"
    using walk_first_level[OF assms(1), of now "[c]" c s1] by auto
  have n: "firstLevel d \<noteq> []"
    using firstLevel_named[OF assms(6) filesBelow_named[OF assms(1,4)]] .
  have "toLowerCase (firstLevel d) \<in> set (tags r)"
    by (rule subcategory_tagged[OF _ n b]) simp
  then show ?thesis using r b sub by blast
qed

lemma immediate_parent_recorded:
  assumes "dirsNamed items" and "boomStyle g" and "scan g now base = Inr st"
    and "Dir c csz items \<in> set (scannedFolders g base)"
    and "(d, f, sz) \<in> set (filesBelow [] items)" and "extOf f \<in> set allowList" and "d \<noteq> []"
  shows "\<exists>r\<in>set (manifest st).
           r = buildRecord g now (id' r) (c # d) (categoryOf g c) (immediateParent d) f sz \<and>
           toLowerCase (immediateParent d) \<in> set (tags r)"
proof -
  have k: "g \<noteq> Kenney" and p: "pushesCategory g" using assms(2) by (auto simp: boomStyle_def)
  have ip: "(\<lambda>d. if d = [] then [] else last d) = immediateParent"
    by (rule ext) (simp add: immediateParent_def)
  from scanned_folder_walk[OF k assms(3,4)] obtain s1
    where sub: "set (manifest (walkItems g now [c] (categoryOf g c) [] items s1)) \<subseteq> set (manifest st)"
    by auto
  have w: "walkItems g now [c] (categoryOf g c) [] items s1
      = foldl (visit g now [c] (categoryOf g c) immediateParent) s1 (filesBelow [] items)"
    using walk_immediate_parent[OF assms(2), of now "[c]" "categoryOf g c" "[]" items s1] ip by simp
  from foldl_visit_builds[OF assms(5,6), of g now "[c]" "categoryOf g c" immediateParent s1]
  obtain r where r: "r \<in> set (manifest (walkItems g now [c] (categoryOf g c) [] items s1))"
    and b: "r = buildRecord g now (id' r) (c # d) (categoryOf g c) (immediateParent d) f sz"
    using w by auto
  have n: "immediateParent d \<noteq> []"
    using immediateParent_named[OF assms(7) filesBelow_named[OF assms(1,5)]] .
  have "toLowerCase (immediateParent d) \<in> set (tags r)"
    by (rule subcategory_tagged[OF p n b])
  then show ?thesis using r b sub by blast
qed

section \<open>Properties of the manifests\<close>

text \<open>
  C1, as the code has it.  The six scripts with a \<^verbatim>\<open>tags.push(lowerCat)\<close> line (Adobe,
  Amiga Music, BoomLibrary, H360s, Other, XDSoundKit) put the lowercased category into the
  tags of every record.  In all eight scripts the lowercased subcategory is among the
  tags whenever the subcategory handed to the file is not empty (Kenney's \<^verbatim>\<open>Male\<close> and
  \<^verbatim>\<open>Female\<close> through its two subcategory rules; FilmCow never has one), whatever the file
  is called, and every record of a scan is built with such a subcategory.  FilmCow and
  Kenney have no \<^verbatim>\<open>tags.push(lowerCat)\<close> line.
\<close>

theorem category_tags:
  "(pushesCategory g \<longrightarrow> toLowerCase c \<in> set (tags (buildRecord g now k d c s f sz))) \<and>
   (subcategoryPassed g s \<longrightarrow> s \<noteq> [] \<longrightarrow>
      toLowerCase s \<in> set (tags (buildRecord g now k d c s f sz))) \<and>
   (scan g now base = Inr st \<longrightarrow> r \<in> set (manifest st) \<longrightarrow>
      (\<exists>d' s' f' sz'. r = buildRecord g now (id' r) d' (category r) s' f' sz' \<and>
         extOf f' \<in> set allowList \<and> subcategoryPassed g s') \<and>
      (pushesCategory g \<longrightarrow> toLowerCase (category r) \<in> set (tags r)))"
proof -
  have a: "\<And>k d c s f sz. pushesCategory g \<Longrightarrow>
             toLowerCase c \<in> set (tags (buildRecord g now k d c s f sz))"
    by (simp add: uniqueTags_set pushedTags_category)
  have b: "subcategoryPassed g s \<longrightarrow> s \<noteq> [] \<longrightarrow>
             toLowerCase s \<in> set (tags (buildRecord g now k d c s f sz))"
    by (simp add: uniqueTags_set pushedTags_subcategory)
  have c: "(\<exists>d' s' f' sz'. r = buildRecord g now (id' r) d' (category r) s' f' sz' \<and>
              extOf f' \<in> set allowList \<and> subcategoryPassed g s') \<and>
           (pushesCategory g \<longrightarrow> toLowerCase (category r) \<in> set (tags r))"
    if "scan g now base = Inr st" and "r \<in> set (manifest st)"
  proof -
    from scan_provenance[OF that] obtain k' d' c' s' f' sz'
      where r: "r = buildRecord g now k' d' c' s' f' sz'" and e: "extOf f' \<in> set allowList"
        and p: "subcategoryPassed g s'" by blast
    have "r = buildRecord g now (id' r) d' (category r) s' f' sz'" using r by simp
    moreover have "pushesCategory g \<longrightarrow> toLowerCase (category r) \<in> set (tags r)"
      using a[of c' k' d' s' f' sz'] r by simp
    ultimately show ?thesis using e p by blast
  qed
  show ?thesis using a b c by blast
qed

theorem category_tags_witness:
  "pushesCategory BoomLibrary \<and> subcategoryPassed BoomLibrary ''Snow'' \<and> ''Snow'' \<noteq> [] \<and>
   scan BoomLibrary epoch boomTree = Inr boomResult \<and>
   last (manifest boomResult) \<in> set (manifest boomResult) \<and>
   ''foley'' \<in> set (tags (buildRecord BoomLibrary epoch 2 [''Foley'', ''Boots'', ''Snow'']
                            ''Foley'' ''Snow'' ''run_01.WAV'' 20)) \<and>
   ''snow'' \<in> set (tags (buildRecord BoomLibrary epoch 2 [''Foley'', ''Boots'', ''Snow'']
                            ''Foley'' ''Snow'' ''run_01.WAV'' 20)) \<and>
   ''foley'' \<in> set (tags (last (manifest boomResult)))"
proof -
  have p: "pushesCategory BoomLibrary" by simp
  have q: "subcategoryPassed BoomLibrary ''Snow''" by simp
  have m: "last (manifest boomResult) \<in> set (manifest boomResult)"
    by (simp add: boomResult_def)
  have l1: "toLowerCase ''Foley'' = ''foley''" by code_simp
  have l2: "toLowerCase ''Snow'' = ''snow''" by code_simp
  have cat: "category (last (manifest boomResult)) = ''Foley''" by (simp add: boomResult_def)
  show ?thesis
    using category_tags[of BoomLibrary "''Foley''" epoch 2 "[''Foley'', ''Boots'', ''Snow'']" "''Snow''"
        "''run_01.WAV''" 20 boomTree boomResult "last (manifest boomResult)"]
      p q m l1 l2 cat boomTree_scan
    by simp
qed

text \<open>The claim as stated fails for Kenney and FilmCow: the category is not among the tags.\<close>

theorem category_tags_counterexample:
  "scan Kenney epoch kenneyTree = Inr kenneyResult \<and>
   category (hd (manifest kenneyResult)) = ''Impact Sounds'' \<and>
   toLowerCase ''Impact Sounds'' \<notin> set (tags (hd (manifest kenneyResult))) \<and>
   scan FilmCow epoch filmCowTree = Inr filmCowResult \<and>
   category (hd (manifest filmCowResult)) = ''Recorded SFX'' \<and>
   toLowerCase ''Recorded SFX'' \<notin> set (tags (hd (manifest filmCowResult)))"
proof -
  have "toLowerCase ''Impact Sounds'' = ''impact sounds''" by code_simp
  moreover have "toLowerCase ''Recorded SFX'' = ''recorded sfx''" by code_simp
  ultimately show ?thesis using kenneyTree_scan filmCowTree_scan
    by (simp add: kenneyResult_def filmCowResult_def)
qed

text \<open>
  C2, as the code has it.  For a stem of ASCII letters, digits, underscores, hyphens and
  whitespace the name is the transform of the specification (underscores and hyphens to
  spaces, first letter of every whitespace-delimited word uppercased, rest untouched);
  Kenney appends the subcategory in parentheses when there is one.
\<close>

theorem name_derivation:
  assumes "plainStem (basename f (extname f))"
  shows "name (buildRecord g now k d c s f sz) =
           (if g = Kenney \<and> s \<noteq> []
            then specName (basename f (extname f)) @ '' ('' @ s @ '')''
            else specName (basename f (extname f)))"
  using nameOf_specName[OF assms] by (simp add: displayName_def)

theorem name_derivation_witness:
  "plainStem (basename ''run_01.WAV'' (extname ''run_01.WAV'')) \<and>
   name (buildRecord BoomLibrary epoch 2 [''Foley'', ''Boots'', ''Snow''] ''Foley'' ''Snow''
           ''run_01.WAV'' 20) = ''Run 01''"
proof -
  have p: "plainStem (basename ''run_01.WAV'' (extname ''run_01.WAV''))" by code_simp
  have "specName (basename ''run_01.WAV'' (extname ''run_01.WAV'')) = ''Run 01''" by code_simp
  then show ?thesis
    using p name_derivation[OF p, of BoomLibrary epoch 2 "[''Foley'', ''Boots'', ''Snow'']"
        "''Foley''" "''Snow''" 20]
    by simp
qed

text \<open>The claim as stated fails twice: Kenney adds \<^verbatim>\<open>(Male)\<close> to the name, and the
  regular expression \<^verbatim>\<open>\b\w\<close> also capitalises a letter after a dot, which does not start a
  whitespace-delimited word.\<close>

theorem name_derivation_counterexample:
  "scan Kenney epoch kenneyTree = Inr kenneyResult \<and>
   name (last (manifest kenneyResult)) = ''War Go (Male)'' \<and>
   specName (basename ''war_go.ogg'' (extname ''war_go.ogg'')) = ''War Go'' \<and>
   scan FilmCow epoch filmCowTree = Inr filmCowResult \<and>
   name (last (manifest filmCowResult)) = ''Mr.Smith Door'' \<and>
   specName (basename ''mr.smith_door.ogg'' (extname ''mr.smith_door.ogg'')) = ''Mr.smith Door''"
proof -
  have "specName (basename ''war_go.ogg'' (extname ''war_go.ogg'')) = ''War Go''" by code_simp
  moreover have "specName (basename ''mr.smith_door.ogg'' (extname ''mr.smith_door.ogg''))
      = ''Mr.smith Door''" by code_simp
  ultimately show ?thesis using kenneyTree_scan filmCowTree_scan
    by (simp add: kenneyResult_def filmCowResult_def)
qed

text \<open>
  C3, as the code has it.  For \<^verbatim>\<open>audio/Other/RetroGames/bomb_jack_theme.ogg\<close> the Other
  script produces the name \<^verbatim>\<open>Bomb Jack Theme\<close>, the format \<^verbatim>\<open>ogg\<close> and exactly the tags
  retrogames, retro, game music, soundtrack, theme, title, menu.
\<close>

theorem scenario_a:
  "scan Other epoch scenarioA = Inr scenarioAResult \<and>
   map name (manifest scenarioAResult) = [''Bomb Jack Theme''] \<and>
   map format (manifest scenarioAResult) = [''ogg''] \<and>
   map tags (manifest scenarioAResult) =
     [[''retrogames'', ''retro'', ''game music'', ''soundtrack'', ''theme'', ''title'', ''menu'']]"
  using scenarioA_scan by (simp add: scenarioAResult_def)

text \<open>The tags bomb jack, arcade, platformer and mark cooksey of the claim are missing: the
  rule tests the lowercased stem \<^verbatim>\<open>bomb_jack_theme\<close> for \<^verbatim>\<open>bomb jack\<close> with a space.\<close>

theorem scenario_a_counterexample:
  "scan Other epoch scenarioA = Inr scenarioAResult \<and>
   \<not> set [''retrogames'', ''retro'', ''game music'', ''soundtrack'', ''bomb jack'', ''arcade'',
          ''platformer'', ''mark cooksey'', ''theme'', ''title'', ''menu'']
      \<subseteq> set (tags (hd (manifest scenarioAResult))) \<and>
   \<not> includesStr (toLowerCase (basename ''bomb_jack_theme.ogg'' (extname ''bomb_jack_theme.ogg'')))
        ''bomb jack''"
proof -
  have "\<not> includesStr (toLowerCase (basename ''bomb_jack_theme.ogg'' (extname ''bomb_jack_theme.ogg'')))
        ''bomb jack''" by code_simp
  then show ?thesis using scenarioA_scan by (simp add: scenarioAResult_def)
qed


text \<open>
  C4, as the code has it.  In the seven scripts whose walk recurses (all but Kenney), an
  audio file with an allow-listed extension at any depth below a scanned folder is
  emitted as a record, with the path of that file and the category of the folder.
  Kenney's walk lists the \<^verbatim>\<open>Audio\<close>, \<^verbatim>\<open>Male\<close> and \<^verbatim>\<open>Female\<close> folders only and never
  recurses.
\<close>

theorem nested_files_emitted:
  assumes "g \<noteq> Kenney"
    and "scan g now base = Inr st"
    and "Dir c csz kids \<in> set (scannedFolders g base)"
    and "(d, f, sz) \<in> set (filesBelow [c] kids)"
    and "extOf f \<in> set allowList"
  shows "\<exists>r\<in>set (manifest st).
           path r = joinPath ([''audio'', libraryFolder g] @ d @ [f]) \<and>
           category r = categoryOf g c \<and> format r = extOf f \<and> size' r = sz"
proof (cases "g = H360s")
  case True
  have run: "forEach (processCategory now base) categories initialState = Inr st"
    using assms(2) True by (simp add: scan_def)
  from assms(3) True obtain cat where cat: "cat \<in> set categories"
    and ch: "childOf base cat = Some (Dir c csz kids)"
    by (auto simp: scannedFolders_def split: option.splits)
  have "cat = c"
  proof (cases base)
    case None
    then show ?thesis using ch by simp
  next
    case (Some b)
    then show ?thesis using ch child_named[of _ cat "Dir c csz kids"] by (cases b) auto
  qed
  from forEach_split[OF run cat] obtain s1 s2 zs
    where b: "processCategory now base cat s1 = Inr s2"
      and z: "forEach (processCategory now base) zs s2 = Inr st" by blast
  have s2: "s2 = walkItems H360s now [c] c [] kids s1"
    using b ch \<open>cat = c\<close>
    by (simp add: processCategory_def Let_def existsSync_def processAudioDirectory_def)
  from walkItems_emits[OF assms(1,4,5), of now c "[]" s1] True s2
  obtain r where r: "r \<in> set (manifest s2)"
    and p: "path r = joinPath ([''audio'', libraryFolder g] @ d @ [f]) \<and>
           category r = c \<and> format r = extOf f \<and> size' r = sz" by auto
  have "r \<in> set (manifest st)"
    using forEach_invariant[of "\<lambda>st. r \<in> set (manifest st)" "processCategory now base" s2 zs st]
      processCategory_keeps[of r _ now base] r z by blast
  then show ?thesis using p True by auto
next
  case False
  from assms(2) False obtain entries where e: "readdirSync base = Inr entries"
    and run: "forEach (processSubdir g now) (filter isDirectory entries) initialState = Inr st"
    by (auto simp: scan_def split: sum.splits)
  have m: "Dir c csz kids \<in> set (filter isDirectory entries)"
    using assms(3) False e by (simp add: scannedFolders_def)
  from forEach_split[OF run m] obtain s1 s2 zs
    where b: "processSubdir g now (Dir c csz kids) s1 = Inr s2"
      and z: "forEach (processSubdir g now) zs s2 = Inr st" by blast
  have s2: "s2 = walkItems g now [c] (categoryOf g c) [] kids s1"
    using b assms(1)
    by (simp add: processSubdir_def existsSync_def processAudioDirectory_def)
  from walkItems_emits[OF assms(1,4,5), of now "categoryOf g c" "[]" s1] s2
  obtain r where r: "r \<in> set (manifest s2)"
    and p: "path r = joinPath ([''audio'', libraryFolder g] @ d @ [f]) \<and>
           category r = categoryOf g c \<and> format r = extOf f \<and> size' r = sz" by auto
  have "r \<in> set (manifest st)"
    using forEach_invariant[of "\<lambda>st. r \<in> set (manifest st)" "processSubdir g now" s2 zs st]
      processSubdir_keeps[of r _ g now] r z by blast
  then show ?thesis using p by auto
qed

theorem nested_files_emitted_witness:
  "BoomLibrary \<noteq> Kenney \<and>
   scan BoomLibrary epoch boomTree = Inr boomResult \<and>
   Dir ''Foley'' 0 foleyItems \<in> set (scannedFolders BoomLibrary boomTree) \<and>
   ([''Foley'', ''Boots'', ''Snow''], ''run_01.WAV'', 20) \<in> set (filesBelow [''Foley''] foleyItems) \<and>
   extOf ''run_01.WAV'' \<in> set allowList \<and>
   (\<exists>r\<in>set (manifest boomResult).
      path r = ''audio/BoomLibrary/Foley/Boots/Snow/run_01.WAV'' \<and>
      category r = ''Foley'' \<and> format r = ''wav'' \<and> size' r = 20)"
proof -
  have g: "BoomLibrary \<noteq> Kenney" by simp
  have f: "Dir ''Foley'' 0 foleyItems \<in> set (scannedFolders BoomLibrary boomTree)"
    by code_simp
  have m: "([''Foley'', ''Boots'', ''Snow''], ''run_01.WAV'', 20) \<in> set (filesBelow [''Foley''] foleyItems)"
    by code_simp
  have a: "extOf ''run_01.WAV'' \<in> set allowList" by code_simp
  have p: "joinPath ([''audio'', libraryFolder BoomLibrary] @ [''Foley'', ''Boots'', ''Snow''] @ [''run_01.WAV''])
      = ''audio/BoomLibrary/Foley/Boots/Snow/run_01.WAV''" by code_simp
  have e: "extOf ''run_01.WAV'' = ''wav''" by code_simp
  show ?thesis
    using nested_files_emitted[OF g boomTree_scan f m a] g f m a p e boomTree_scan by simp
qed

text \<open>The claim as stated fails for Kenney: the file in \<^verbatim>\<open>Audio/extra\<close> gets no record.\<close>

theorem nested_files_counterexample:
  "scan Kenney epoch kenneyTree = Inr kenneyResult \<and>
   Dir ''kenney_impact-sounds'' 0 impactPack \<in> set (scannedFolders Kenney kenneyTree) \<and>
   ([''kenney_impact-sounds'', ''Audio'', ''extra''], ''glass_01.ogg'', 30)
     \<in> set (filesBelow [''kenney_impact-sounds''] impactPack) \<and>
   extOf ''glass_01.ogg'' \<in> set allowList \<and>
   map path (manifest kenneyResult) =
     [''audio/Kenney/kenney_impact-sounds/Audio/footstep_00.ogg'',
      ''audio/Kenney/kenney_voiceover-pack/Male/war_go.ogg''] \<and>
   ''audio/Kenney/kenney_impact-sounds/Audio/extra/glass_01.ogg''
     \<notin> set (map path (manifest kenneyResult))"
proof -
  have "Dir ''kenney_impact-sounds'' 0 impactPack \<in> set (scannedFolders Kenney kenneyTree)"
    by code_simp
  moreover have "([''kenney_impact-sounds'', ''Audio'', ''extra''], ''glass_01.ogg'', 30)
     \<in> set (filesBelow [''kenney_impact-sounds''] impactPack)" by code_simp
  moreover have "extOf ''glass_01.ogg'' \<in> set allowList" by code_simp
  ultimately show ?thesis using kenneyTree_scan by (simp add: kenneyResult_def)
qed

text \<open>
  C5.  Every record of every manifest has the format \<^verbatim>\<open>ogg\<close>, \<^verbatim>\<open>wav\<close> or \<^verbatim>\<open>mp3\<close>, and
  a file with another extension is skipped during the walk: the run yields the same
  records, ids included, as on the tree without those files.
\<close>

theorem allow_listed_formats:
  assumes "scan g now base = Inr st"
  shows "(\<forall>r\<in>set (manifest st). format r \<in> {''ogg'', ''wav'', ''mp3''}) \<and>
         scan g now (pruneBase base) = Inr st"
proof -
  have "format r \<in> {''ogg'', ''wav'', ''mp3''}" if "r \<in> set (manifest st)" for r
  proof -
    from scan_provenance[OF assms that] obtain k d c s f sz
      where "r = buildRecord g now k d c s f sz" and "extOf f \<in> set allowList" by blast
    then show ?thesis by (simp add: allowList_def)
  qed
  then show ?thesis using scan_prune[OF assms] by blast
qed

theorem allow_listed_formats_witness:
  "scan BoomLibrary epoch boomTree = Inr boomResult \<and>
   map format (manifest boomResult) = [''ogg'', ''wav''] \<and>
   pruneBase boomTree = Some (Dir ''BoomLibrary'' 0 [Dir ''Foley'' 0
     [File ''step.ogg'' 10, Dir ''Boots'' 0 [Dir ''Snow'' 0 [File ''run_01.WAV'' 20]]]]) \<and>
   scan BoomLibrary epoch (pruneBase boomTree) = Inr boomResult"
proof -
  have "pruneBase boomTree = Some (Dir ''BoomLibrary'' 0 [Dir ''Foley'' 0
     [File ''step.ogg'' 10, Dir ''Boots'' 0 [Dir ''Snow'' 0 [File ''run_01.WAV'' 20]]]])"
    by code_simp
  moreover have "map format (manifest boomResult) = [''ogg'', ''wav'']"
    by (simp add: boomResult_def)
  ultimately show ?thesis
    using allow_listed_formats[OF boomTree_scan] boomTree_scan by simp
qed

text \<open>
  C6.  In every generated manifest with \<open>N\<close> records the ids are exactly \<open>1, \<dots>, N\<close>
  in the order of the array: each once, strictly increasing, without gaps.
\<close>

theorem ids_sequential:
  assumes "scan g now base = Inr st"
  shows "map id' (manifest st) = [1..<Suc (length (manifest st))] \<and>
         sorted_wrt (<) (map id' (manifest st)) \<and> distinct (map id' (manifest st))"
proof -
  let ?I = "\<lambda>st::runState. map id' (manifest st) = [1..<idCounter st] \<and>
                 idCounter st = Suc (length (manifest st))"
  have "?I st"
  proof (rule scan_invariant[of g ?I now base st])
    fix d c s f sz st0
    assume "?I st0"
    then show "?I (processFile g now d c s f sz st0)"
      by (auto simp: processFile_def)
  next
    show "?I initialState" by (simp add: initialState_def)
  next
    show "scan g now base = Inr st" by fact
  qed
  then have eq: "map id' (manifest st) = [1..<Suc (length (manifest st))]" by simp
  have "sorted_wrt (<) [1..<Suc (length (manifest st))]"
    by (rule sorted_wrt_upt)
  moreover have "distinct [1..<Suc (length (manifest st))]" by simp
  ultimately show ?thesis using eq by simp
qed

theorem ids_sequential_witness:
  "scan BoomLibrary epoch boomTree = Inr boomResult \<and>
   map id' (manifest boomResult) = [1, 2]"
proof -
  have "map id' (manifest boomResult) = [1..<Suc (length (manifest boomResult))]"
    using ids_sequential[OF boomTree_scan] by simp
  moreover have "length (manifest boomResult) = 2" by (simp add: boomResult_def)
  moreover have "[1..<Suc 2] = [1, 2::nat]" by code_simp
  ultimately show ?thesis using boomTree_scan by simp
qed

text \<open>
  C7.  The tags of every emitted record are the pushed tags with every later duplicate
  dropped and the first occurrences left in their order; no string occurs twice.
\<close>

theorem tags_deduplicated:
  assumes "scan g now base = Inr st" and "r \<in> set (manifest st)"
  shows "distinct (tags r) \<and>
         (\<exists>d s f sz. r = buildRecord g now (id' r) d (category r) s f sz \<and>
            tags r = keepFirst (pushedTags g (category r) s (basename f (extname f))))"
proof -
  from scan_provenance[OF assms] obtain k d c s f sz
    where r: "r = buildRecord g now k d c s f sz" by blast
  have t: "tags r = keepFirst (pushedTags g c s (basename f (extname f)))"
    using r by (simp add: uniqueTags_keepFirst)
  have "distinct (tags r)" using t by (simp add: keepFirst_distinct)
  moreover have "r = buildRecord g now (id' r) d (category r) s f sz \<and>
      tags r = keepFirst (pushedTags g (category r) s (basename f (extname f)))"
    using r t by simp
  ultimately show ?thesis by blast
qed

theorem tags_deduplicated_witness:
  "scan BoomLibrary epoch boomTree = Inr boomResult \<and>
   last (manifest boomResult) \<in> set (manifest boomResult) \<and>
   tags (last (manifest boomResult))
     = [''foley'', ''snow'', ''boom library'', ''professional'', ''cinematic''] \<and>
   distinct (tags (last (manifest boomResult)))"
proof -
  have m: "last (manifest boomResult) \<in> set (manifest boomResult)"
    by (simp add: boomResult_def)
  have "distinct (tags (last (manifest boomResult)))"
    using tags_deduplicated[OF boomTree_scan m] by blast
  moreover have "tags (last (manifest boomResult))
     = [''foley'', ''snow'', ''boom library'', ''professional'', ''cinematic'']"
    by (simp add: boomResult_def)
  ultimately show ?thesis using boomTree_scan m by simp
qed

text \<open>
  C8, as the code has it.  When the library folder exists and is empty, every script
  scans nothing and writes a manifest whose content is exactly \<^verbatim>\<open>[]\<close>.
\<close>

theorem empty_root_manifest:
  "generate g now (Some (Dir n sz [])) = Inr ''[]''"
proof -
  have s: "scan g now (Some (Dir n sz [])) = Inr initialState"
  proof (cases "g = H360s")
    case True
    have "\<And>st. forEach (processCategory now (Some (Dir n sz []))) cs st = Inr st" for cs
      by (induction cs) (simp_all add: processCategory_def child_def existsSync_def)
    then show ?thesis using True by (simp add: scan_def)
  next
    case False
    then show ?thesis by (simp add: scan_def)
  qed
  show ?thesis
    by (simp add: generate_def s initialState_def stringify_def bracketed_def child_def)
qed

text \<open>A library folder that does not exist makes the run fail: the listing of the folder
  (and for H360s the write of the manifest) raises \<^verbatim>\<open>ENOENT\<close>.\<close>

theorem missing_root_counterexample:
  "generate BoomLibrary epoch None = Inl ENOENT \<and> generate H360s epoch None = Inl ENOENT"
  by code_simp

text \<open>
  C9.  Two runs of a script on the same tree, whatever the clock shows, end alike and
  produce record sequences with the same content (path, name, category, format, size,
  duration, rating, tags, description, library); only \<^verbatim>\<open>dateAdded\<close> depends on the
  run.
\<close>

theorem rerun_same_content:
  "recordContents (scan g now1 base) = recordContents (scan g now2 base)"
proof -
  have "recordContents (scan g now1 base) = recordContents (scan g noClock base)"
    using recordContents_undated[of "scan g now1 base"] by (simp add: undated_scan)
  moreover have "recordContents (scan g now2 base) = recordContents (scan g noClock base)"
    using recordContents_undated[of "scan g now2 base"] by (simp add: undated_scan)
  ultimately show ?thesis by simp
qed

text \<open>
  C10.  Seen from a category folder whose directories all have a name, H360s hands
  every file the name of the first-level directory on its path as subcategory, and the
  BoomLibrary-style scripts (Adobe, Amiga Music, BoomLibrary, Other, XDSoundKit) the name
  of the file's immediate parent directory; a file directly in the category folder has
  the empty subcategory in both.  For every audio file that lies in a directory below a
  scanned category folder, the manifest of the run holds the record built with that
  subcategory, and the lowercased subcategory is among the record's tags: the first-level
  directory for H360s, however deep the file lies, the immediate parent for the
  BoomLibrary-style scripts.
\<close>

theorem subcategory_propagation:
  assumes "dirsNamed items"
  shows "walkItems H360s now [c] c [] items st
           = foldl (visit H360s now [c] c firstLevel) st (filesBelow [] items) \<and>
         (boomStyle g \<longrightarrow>
          walkItems g now [c] (categoryOf g c) [] items st
            = foldl (visit g now [c] (categoryOf g c) immediateParent) st (filesBelow [] items)) \<and>
         (scan g now base = Inr st' \<longrightarrow> Dir c csz items \<in> set (scannedFolders g base) \<longrightarrow>
          (d, f, sz) \<in> set (filesBelow [] items) \<longrightarrow> extOf f \<in> set allowList \<longrightarrow> d \<noteq> [] \<longrightarrow>
            (g = H360s \<longrightarrow>
               (\<exists>r\<in>set (manifest st').
                  r = buildRecord H360s now (id' r) (c # d) c (firstLevel d) f sz \<and>
                  toLowerCase (firstLevel d) \<in> set (tags r))) \<and>
            (boomStyle g \<longrightarrow>
               (\<exists>r\<in>set (manifest st').
                  r = buildRecord g now (id' r) (c # d) (categoryOf g c) (immediateParent d) f sz \<and>
                  toLowerCase (immediateParent d) \<in> set (tags r))))"
proof -
  have ip: "(\<lambda>d. if d = [] then [] else last d) = immediateParent"
    by (rule ext) (simp add: immediateParent_def)
  have a: "walkItems H360s now [c] c [] items st
           = foldl (visit H360s now [c] c firstLevel) st (filesBelow [] items)"
    using walk_first_level[OF assms, of now "[c]" c st] .
  have b: "boomStyle g \<longrightarrow>
          walkItems g now [c] (categoryOf g c) [] items st
            = foldl (visit g now [c] (categoryOf g c) immediateParent) st (filesBelow [] items)"
    using walk_immediate_parent[of g now "[c]" "categoryOf g c" "[]" items st] ip by simp
  have h: "\<exists>r\<in>set (manifest st').
             r = buildRecord H360s now (id' r) (c # d) c (firstLevel d) f sz \<and>
             toLowerCase (firstLevel d) \<in> set (tags r)"
    if "scan g now base = Inr st'" "Dir c csz items \<in> set (scannedFolders g base)"
      "(d, f, sz) \<in> set (filesBelow [] items)" "extOf f \<in> set allowList" "d \<noteq> []" "g = H360s"
    using first_level_recorded[OF assms, of now base st' c csz d f sz] that by simp
  have i: "\<exists>r\<in>set (manifest st').
             r = buildRecord g now (id' r) (c # d) (categoryOf g c) (immediateParent d) f sz \<and>
             toLowerCase (immediateParent d) \<in> set (tags r)"
    if "scan g now base = Inr st'" "Dir c csz items \<in> set (scannedFolders g base)"
      "(d, f, sz) \<in> set (filesBelow [] items)" "extOf f \<in> set allowList" "d \<noteq> []" "boomStyle g"
    using immediate_parent_recorded[OF assms that(6,1,2,3,4,5)] .
  show ?thesis using a b h i by blast
qed

theorem subcategory_propagation_witness:
  "dirsNamed foleyItems \<and> boomStyle BoomLibrary \<and>
   scan H360s epoch h360sTree = Inr h360sResult \<and>
   Dir ''Foley'' 0 foleyItems \<in> set (scannedFolders H360s h360sTree) \<and>
   scan BoomLibrary epoch boomTree = Inr boomResult \<and>
   Dir ''Foley'' 0 foleyItems \<in> set (scannedFolders BoomLibrary boomTree) \<and>
   filesBelow [] foleyItems =
     [([], ''step.ogg'', 10), ([], ''notes.txt'', 5), ([''Boots'', ''Snow''], ''run_01.WAV'', 20)] \<and>
   extOf ''run_01.WAV'' \<in> set allowList \<and>
   firstLevel [''Boots'', ''Snow''] = ''Boots'' \<and>
   immediateParent [''Boots'', ''Snow''] = ''Snow'' \<and>
   (\<exists>r\<in>set (manifest h360sResult).
      r = buildRecord H360s epoch (id' r) [''Foley'', ''Boots'', ''Snow''] ''Foley'' ''Boots''
            ''run_01.WAV'' 20 \<and>
      ''boots'' \<in> set (tags r)) \<and>
   (\<exists>r\<in>set (manifest boomResult).
      r = buildRecord BoomLibrary epoch (id' r) [''Foley'', ''Boots'', ''Snow''] ''Foley'' ''Snow''
            ''run_01.WAV'' 20 \<and>
      ''snow'' \<in> set (tags r)) \<and>
   tags (last (manifest h360sResult)) = [''foley'', ''boots'', ''run'', ''movement''] \<and>
   tags (last (manifest boomResult))
     = [''foley'', ''snow'', ''boom library'', ''professional'', ''cinematic''] \<and>
   walkItems H360s epoch [''Foley''] ''Foley'' [] foleyItems initialState
     = foldl (visit H360s epoch [''Foley''] ''Foley'' firstLevel) initialState
         (filesBelow [] foleyItems) \<and>
   walkItems BoomLibrary epoch [''Foley''] ''Foley'' [] foleyItems initialState
     = foldl (visit BoomLibrary epoch [''Foley''] ''Foley'' immediateParent) initialState
         (filesBelow [] foleyItems)"
proof -
  have d: "dirsNamed foleyItems" by code_simp
  have b: "boomStyle BoomLibrary" by code_simp
  have fh: "Dir ''Foley'' 0 foleyItems \<in> set (scannedFolders H360s h360sTree)" by code_simp
  have fb: "Dir ''Foley'' 0 foleyItems \<in> set (scannedFolders BoomLibrary boomTree)" by code_simp
  have f: "filesBelow [] foleyItems =
     [([], ''step.ogg'', 10), ([], ''notes.txt'', 5), ([''Boots'', ''Snow''], ''run_01.WAV'', 20)]"
    by code_simp
  have m: "([''Boots'', ''Snow''], ''run_01.WAV'', 20) \<in> set (filesBelow [] foleyItems)"
    by (simp add: f)
  have a: "extOf ''run_01.WAV'' \<in> set allowList" by code_simp
  have fl: "firstLevel [''Boots'', ''Snow''] = ''Boots''" by simp
  have ip: "immediateParent [''Boots'', ''Snow''] = ''Snow''" by code_simp
  have lb: "toLowerCase ''Boots'' = ''boots''" by code_simp
  have ls: "toLowerCase ''Snow'' = ''snow''" by code_simp
  have ne: "[''Boots'', ''Snow''] \<noteq> []" by simp
  note h = subcategory_propagation[OF d, where now = epoch and c = "''Foley''"
      and st = initialState and g = H360s and base = h360sTree and st' = h360sResult
      and csz = 0 and d = "[''Boots'', ''Snow'']" and f = "''run_01.WAV''" and sz = 20]
  note k = subcategory_propagation[OF d, where now = epoch and c = "''Foley''"
      and st = initialState and g = BoomLibrary and base = boomTree and st' = boomResult
      and csz = 0 and d = "[''Boots'', ''Snow'']" and f = "''run_01.WAV''" and sz = 20]
  have w1: "walkItems H360s epoch [''Foley''] ''Foley'' [] foleyItems initialState
     = foldl (visit H360s epoch [''Foley''] ''Foley'' firstLevel) initialState
         (filesBelow [] foleyItems)"
    using h by blast
  have w2: "walkItems BoomLibrary epoch [''Foley''] ''Foley'' [] foleyItems initialState
     = foldl (visit BoomLibrary epoch [''Foley''] ''Foley'' immediateParent) initialState
         (filesBelow [] foleyItems)"
    using k b by simp
  have r1: "\<exists>r\<in>set (manifest h360sResult).
      r = buildRecord H360s epoch (id' r) [''Foley'', ''Boots'', ''Snow''] ''Foley'' ''Boots''
            ''run_01.WAV'' 20 \<and>
      ''boots'' \<in> set (tags r)"
    using h h360sTree_scan fh m a ne fl lb by simp
  have r2: "\<exists>r\<in>set (manifest boomResult).
      r = buildRecord BoomLibrary epoch (id' r) [''Foley'', ''Boots'', ''Snow''] ''Foley'' ''Snow''
            ''run_01.WAV'' 20 \<and>
      ''snow'' \<in> set (tags r)"
    using k boomTree_scan fb m a ne b ip ls by simp
  have t1: "tags (last (manifest h360sResult)) = [''foley'', ''boots'', ''run'', ''movement'']"
    by (simp add: h360sResult_def)
  have t2: "tags (last (manifest boomResult))
     = [''foley'', ''snow'', ''boom library'', ''professional'', ''cinematic'']"
    by (simp add: boomResult_def)
  show ?thesis
    using d b h360sTree_scan fh boomTree_scan fb f a fl ip r1 r2 t1 t2 w1 w2 by blast
qed

end
